theory Spec2Isabelle
  imports Complex_Main "HOL-Library.Word"
begin

section \<open>Data model of the map evaluator\<close>

text \<open>
  The embedding follows \<^verbatim>\<open>panoptic_mapping_utils/src/evaluation/map_evaluator.cpp\<close>
  and the class declaration of \<^verbatim>\<open>MapEvaluator\<close>. The C++ \<^verbatim>\<open>float\<close> is read as
  a real number: the comparisons, \<^verbatim>\<open>std::abs\<close>, \<^verbatim>\<open>std::min\<close> and the arithmetic are
  the exact ones, so rounding and NaN are outside the model. The \<^verbatim>\<open>uint64_t\<close> counters
  are natural numbers: each is incremented at most once per element of a vector held in
  memory, so none can reach \<open>2 ^ 64\<close>.
\<close>

record Point =
  px :: real
  py :: real
  pz :: real

text \<open>\<^verbatim>\<open>struct EvaluationRequest\<close>, with the defaults of the declaration.\<close>

record EvaluationRequest =
  verbosity :: int
  map_file :: string
  ground_truth_pointcloud_file :: string
  output_suffix :: string
  maximum_distance :: real
  inlier_distance :: real
  visualize :: bool
  evaluate :: bool
  compute_coloring :: bool
  ignore_truncated_points :: bool
  color_by_max_error :: bool
  color_by_mesh_distance :: bool
  is_single_tsdf :: bool
  export_mesh :: bool
  export_labeled_pointcloud :: bool
  export_coverage_pointcloud :: bool

definition default_request :: EvaluationRequest where
  "default_request =
     \<lparr> verbosity = 4, map_file = '''',
       ground_truth_pointcloud_file =
         ''/home/giuliano/mt_ipp_panoptic_mapping/datasets/scannetv2-dvc/scans/scene0587_02/scene0587_02_vh_clean_2.pointcloud.ply'',
       output_suffix = ''evaluation_data'',
       maximum_distance = 2 / 10, inlier_distance = 1 / 10,
       visualize = True, evaluate = True, compute_coloring = False,
       ignore_truncated_points = False, color_by_max_error = False,
       color_by_mesh_distance = True, is_single_tsdf = False,
       export_mesh = False, export_labeled_pointcloud = False,
       export_coverage_pointcloud = False \<rparr>"

text \<open>
  Modelled from the spec: the enumerations \<^verbatim>\<open>PanopticLabel\<close>, \<^verbatim>\<open>ChangeState\<close> and
  \<^verbatim>\<open>ClassVoxelType\<close> are declared in headers of \<^verbatim>\<open>panoptic_mapping\<close> that are not
  among the sources; the constructors are the values the evaluator names and the
  specification lists (labels background, instance, free-space; change states persistent,
  absent, unobserved, new).
  \<open>kOtherVoxelType\<close> stands for every voxel type the evaluator does not name. The class,
  instance and belonging ids are \<^verbatim>\<open>int\<close> in the source and 32-bit words here.
\<close>

datatype PanopticLabel = kInstance | kBackground | kFreeSpace

datatype ChangeState = kNew | kPersistent | kAbsent | kUnobserved

datatype ClassVoxelType =
  kBinaryCount | kMovingBinaryCount | kPanopticWeight | kFixedCount | kVariableCount
  | kOtherVoxelType

record ClassVoxel =
  getVoxelType :: ClassVoxelType
  getBelongingID :: "32 word"

text \<open>
  A mesh block: its vertices, their colours (the three \<^verbatim>\<open>uint8_t\<close> channels) and, when the
  class layer has a block at the same index, the class voxel found at each vertex.
\<close>

record Mesh =
  vertices :: "Point list"
  colors :: "(8 word \<times> 8 word \<times> 8 word) list"
  class_block :: "(Point \<Rightarrow> ClassVoxel) option"

record Submap =
  getID :: int
  getLabel :: PanopticLabel
  getChangeState :: ChangeState
  getClassID :: "32 word"
  getInstanceID :: "32 word"
  hasClassLayer :: bool
  getMeshLayer :: "Mesh list"

text \<open>
  The ways the process stops without returning: \<^verbatim>\<open>LOG(FATAL)\<close> aborts, an integer
  division by zero is undefined and traps, a null pointer is dereferenced,
  \<^verbatim>\<open>at\<close> and \<^verbatim>\<open>substr\<close> throw \<^verbatim>\<open>std::out_of_range\<close> which nothing catches.
\<close>

datatype fault = FatalLog | ModuloByZero | NullPointer | OutOfRange

text \<open>
  The part of a \<^verbatim>\<open>pcl::VoxelGrid\<close> with a saved leaf layout that the coverage export
  reads: the integer bounding box and the index of the centroid stored for a cell, \<open>- 1\<close>
  for a cell without points.
\<close>

record VoxelGrid =
  getMinBoxCoordinates :: "int \<times> int \<times> int"
  getMaxBoxCoordinates :: "int \<times> int \<times> int"
  getCentroidIndexAt :: "int \<times> int \<times> int \<Rightarrow> int"

text \<open>
  The members of \<^verbatim>\<open>MapEvaluator\<close> the passes read; a member \<^verbatim>\<open>name_\<close> of
  the class is the field \<open>m_name\<close> here (an identifier cannot end in an underscore).
  The distance queries of \<^verbatim>\<open>voxblox::Interpolator\<close> and \<^verbatim>\<open>PlanningInterface\<close> belong
  to the map collaborator: each is a function from the query to the distance, \<open>None\<close>
  when the call returns \<^verbatim>\<open>false\<close> (not observed); the fields \<open>interp_getDistance\<close> and
  \<open>planning_getDistance\<close> are the queries of the interpolator over \<^verbatim>\<open>voxblox_\<close> and of
  \<^verbatim>\<open>planning_\<close> as the evaluator holds them, both taken to exist when a pass runs.
  \<^verbatim>\<open>ros_ok\<close> is \<^verbatim>\<open>ros::ok()\<close>, indexed by the number of calls made before.
\<close>

record MapEvaluator =
  m_request :: EvaluationRequest
  m_gt_cloud_ptr :: "Point list option"
  m_gt_voxel_grid_ptr :: "VoxelGrid option"
  m_filtered_gt_cloud_ptr :: "Point list option"
  m_submaps :: "Submap list option"
  m_use_voxblox :: bool
  m_target_directory :: string
  m_target_map_name :: string
  m_kdtree_data :: "Point list"
  interp_getDistance :: "Point \<Rightarrow> bool \<Rightarrow> real option"
  planning_getDistance :: "Point \<Rightarrow> bool \<Rightarrow> bool \<Rightarrow> real option"
  ros_ok :: "nat \<Rightarrow> bool"

section \<open>The reconstruction error pass\<close>

text \<open>The local variables of \<^verbatim>\<open>computeReconstructionError\<close> that the loop updates.\<close>

record ErrorState =
  total_points :: nat
  unknown_points :: nat
  truncated_points :: nat
  inliers :: nat
  abserror :: "real list"
  count :: nat

definition initial_state :: ErrorState where
  "initial_state =
     \<lparr> total_points = 0, unknown_points = 0, truncated_points = 0, inliers = 0,
       abserror = [], count = 0 \<rparr>"

text \<open>"Lookup the distance": which collaborator is asked, and with which flags.\<close>

definition lookupDistance :: "MapEvaluator \<Rightarrow> EvaluationRequest \<Rightarrow> Point \<Rightarrow> real option" where
  "lookupDistance ev request point =
     (if m_use_voxblox ev then interp_getDistance ev point True
      else if is_single_tsdf request then planning_getDistance ev point False True
      else planning_getDistance ev point True False)"

text \<open>
  "Compute the error" (lines 268 to 282). The truncation test and the pushed values read
  the argument \<^verbatim>\<open>request\<close>; the inlier test reads the member \<^verbatim>\<open>request_\<close>.
\<close>

definition computeError ::
  "MapEvaluator \<Rightarrow> EvaluationRequest \<Rightarrow> real option \<Rightarrow> ErrorState \<Rightarrow> ErrorState" where
  "computeError ev request looked st =
     (case looked of
        Some distance \<Rightarrow>
          (let st1 =
             (if \<bar>distance\<bar> > maximum_distance request then
                (let st' = st\<lparr>truncated_points := truncated_points st + 1\<rparr>
                 in if \<not> ignore_truncated_points request
                    then st'\<lparr>abserror := abserror st' @ [maximum_distance request]\<rparr>
                    else st')
              else st\<lparr>abserror := abserror st @ [\<bar>distance\<bar>]\<rparr>)
           in if \<bar>distance\<bar> \<le> inlier_distance (m_request ev)
              then st1\<lparr>inliers := inliers st1 + 1\<rparr>
              else st1)
      | None \<Rightarrow> st\<lparr>unknown_points := unknown_points st + 1\<rparr>)"

text \<open>
  One iteration of the loop over the ground-truth cloud. After the classification the
  progress guard evaluates \<^verbatim>\<open>count % interval\<close>; with \<open>interval = 0\<close> that is a
  division by zero. What the progress bar prints is not part of the state.
\<close>

definition loopBody ::
  "MapEvaluator \<Rightarrow> EvaluationRequest \<Rightarrow> nat \<Rightarrow> Point \<Rightarrow> ErrorState \<Rightarrow> fault + ErrorState" where
  "loopBody ev request interval point st =
     (let st1 = st\<lparr>total_points := total_points st + 1\<rparr>;
          st2 = computeError ev request (lookupDistance ev request point) st1
      in if interval = 0 then Inl ModuloByZero
         else Inr (st2\<lparr>count := count st2 + 1\<rparr>))"

fun errorLoop ::
  "MapEvaluator \<Rightarrow> EvaluationRequest \<Rightarrow> nat \<Rightarrow> Point list \<Rightarrow> ErrorState \<Rightarrow> fault + ErrorState" where
  "errorLoop ev request interval [] st = Inr st"
| "errorLoop ev request interval (point # rest) st =
     (case loopBody ev request interval point st of
        Inl f \<Rightarrow> Inl f
      | Inr st' \<Rightarrow> errorLoop ev request interval rest st')"

text \<open>
  "Report summary": the same statements close \<^verbatim>\<open>computeReconstructionError\<close> (lines 293
  to 309) and \<^verbatim>\<open>computeMeshError\<close> (lines 382 to 398). The first loop sums the values
  and their squares, the second the squared deviations from the mean; \<^verbatim>\<open>stddev\<close> is
  the accumulator of the second loop and is divided and rooted only when there are more
  than two values.
\<close>

definition sum_and_squares :: "real list \<Rightarrow> real \<times> real" where
  "sum_and_squares values = foldl (\<lambda>(mean, rmse) v. (mean + v, rmse + v ^ 2)) (0, 0) values"

definition report_mean :: "real list \<Rightarrow> real" where
  "report_mean values =
     (let mean = fst (sum_and_squares values)
      in if values \<noteq> [] then mean / real (length values) else mean)"

definition report_rmse :: "real list \<Rightarrow> real" where
  "report_rmse values =
     (let rmse = snd (sum_and_squares values)
      in if values \<noteq> [] then sqrt (rmse / real (length values)) else rmse)"

definition report_stddev :: "real list \<Rightarrow> real" where
  "report_stddev values =
     (let mean = report_mean values;
          stddev = foldl (\<lambda>s v. s + (v - mean) ^ 2) 0 values
      in if length values > 2 then sqrt (stddev / real (length values - 1)) else stddev)"

record ReconstructionSummary =
  r_mean :: real
  r_stddev :: real
  r_rmse :: real
  r_total_points :: nat
  r_unknown_points :: nat
  r_truncated_points :: nat
  r_inliers :: nat

definition summary_of :: "ErrorState \<Rightarrow> ReconstructionSummary" where
  "summary_of st =
     \<lparr> r_mean = report_mean (abserror st), r_stddev = report_stddev (abserror st),
       r_rmse = report_rmse (abserror st), r_total_points = total_points st,
       r_unknown_points = unknown_points st, r_truncated_points = truncated_points st,
       r_inliers = inliers st \<rparr>"

text \<open>
  The loop of \<^verbatim>\<open>computeReconstructionError\<close> with its setup: the final values of the
  local variables, or the fault that stopped it.
\<close>

definition reconstructionPass :: "MapEvaluator \<Rightarrow> EvaluationRequest \<Rightarrow> fault + ErrorState" where
  "reconstructionPass ev request =
     (case m_gt_cloud_ptr ev of
        None \<Rightarrow> Inl NullPointer
      | Some cloud \<Rightarrow> errorLoop ev request (length cloud div 100) cloud initial_state)"

definition computeReconstructionError ::
  "MapEvaluator \<Rightarrow> EvaluationRequest \<Rightarrow> fault + ReconstructionSummary" where
  "computeReconstructionError ev request =
     (case reconstructionPass ev request of
        Inl f \<Rightarrow> Inl f
      | Inr st \<Rightarrow> Inr (summary_of st))"

text \<open>
  The samples and the truncation of one ground-truth point as the specification words
  them (section 4.3): an unobserved point gives no sample; an observed point beyond
  \<^verbatim>\<open>maximum_distance\<close> is truncated and gives \<^verbatim>\<open>maximum_distance\<close> unless truncated points
  are ignored; any other observed point gives its absolute distance.
\<close>

definition spec_contribution :: "MapEvaluator \<Rightarrow> EvaluationRequest \<Rightarrow> Point \<Rightarrow> real list" where
  "spec_contribution ev request p =
     (case lookupDistance ev request p of
        None \<Rightarrow> []
      | Some d \<Rightarrow>
          if maximum_distance request < \<bar>d\<bar>
          then (if ignore_truncated_points request then [] else [maximum_distance request])
          else [\<bar>d\<bar>])"

definition spec_is_truncated :: "MapEvaluator \<Rightarrow> EvaluationRequest \<Rightarrow> Point \<Rightarrow> bool" where
  "spec_is_truncated ev request p =
     (case lookupDistance ev request p of
        None \<Rightarrow> False
      | Some d \<Rightarrow> maximum_distance request < \<bar>d\<bar>)"

text \<open>
  The inlier test as the specification words it: an observed point whose absolute
  distance is at most the \<^verbatim>\<open>inlier_distance\<close> of the request being evaluated.
\<close>

definition spec_is_inlier :: "MapEvaluator \<Rightarrow> EvaluationRequest \<Rightarrow> Point \<Rightarrow> bool" where
  "spec_is_inlier ev request p =
     (case lookupDistance ev request p of
        None \<Rightarrow> False
      | Some d \<Rightarrow> \<bar>d\<bar> \<le> inlier_distance request)"

section \<open>The mesh error pass\<close>

text \<open>
  Modelled from the spec: \<^verbatim>\<open>kdtree_\<close> is a nanoflann index over
  \<^verbatim>\<open>kdtree_data_.points\<close>, and the library header is not among the sources. The
  specification describes the query as returning the nearest points with their squared
  distances in ascending order, and no result for an empty index. A search for one
  neighbour is therefore the exact nearest point by a linear scan, the lowest index among
  equally near points: \<open>None\<close> is \<^verbatim>\<open>num_results == 0\<close>, \<open>Some (i, d)\<close> gives
  \<^verbatim>\<open>ret_index[0]\<close> and \<^verbatim>\<open>out_dist_sqr[0]\<close>. \<^verbatim>\<open>computeMeshError\<close> is called from the
  service callback only, which \<^verbatim>\<open>setupMultiMapEvaluation\<close> advertises after
  \<^verbatim>\<open>buildKdTree\<close>, so the index exists.
\<close>

definition dist_sqr :: "Point \<Rightarrow> Point \<Rightarrow> real" where
  "dist_sqr p q = (px p - px q) ^ 2 + (py p - py q) ^ 2 + (pz p - pz q) ^ 2"

fun knn_scan :: "Point \<Rightarrow> Point list \<Rightarrow> nat \<Rightarrow> (nat \<times> real) option \<Rightarrow> (nat \<times> real) option" where
  "knn_scan query [] i best = best"
| "knn_scan query (p # ps) i best =
     knn_scan query ps (i + 1)
       (case best of
          None \<Rightarrow> Some (i, dist_sqr p query)
        | Some (j, d) \<Rightarrow> if dist_sqr p query < d then Some (i, dist_sqr p query) else Some (j, d))"

definition knnSearch1 :: "Point list \<Rightarrow> Point \<Rightarrow> (nat \<times> real) option" where
  "knnSearch1 points query = knn_scan query points 0 None"

text \<open>\<^verbatim>\<open>(a - b).norm()\<close> of Eigen.\<close>

definition norm_diff :: "Point \<Rightarrow> Point \<Rightarrow> real" where
  "norm_diff a b = sqrt (dist_sqr a b)"

record MeshState =
  ok_calls :: nat
  mesh_inliers :: nat
  mesh_outliers :: nat
  errors :: "real list"

definition initial_mesh_state :: MeshState where
  "initial_mesh_state = \<lparr> ok_calls = 0, mesh_inliers = 0, mesh_outliers = 0, errors = [] \<rparr>"

text \<open>The body of the loop over the vertices of one mesh block (lines 356 to 372).\<close>

definition vertexStep :: "MapEvaluator \<Rightarrow> Point \<Rightarrow> MeshState \<Rightarrow> MeshState" where
  "vertexStep ev point st =
     (case knnSearch1 (m_kdtree_data ev) point of
        None \<Rightarrow> st
      | Some (ret_index, out_dist_sqr) \<Rightarrow>
          (let error = norm_diff (m_kdtree_data ev ! ret_index) point;
               st1 = st\<lparr>errors := errors st @ [error]\<rparr>
           in if error \<le> inlier_distance (m_request ev)
              then st1\<lparr>mesh_inliers := mesh_inliers st1 + 1\<rparr>
              else st1\<lparr>mesh_outliers := mesh_outliers st1 + 1\<rparr>))"

fun vertexLoop :: "MapEvaluator \<Rightarrow> Point list \<Rightarrow> MeshState \<Rightarrow> MeshState" where
  "vertexLoop ev [] st = st"
| "vertexLoop ev (point # rest) st = vertexLoop ev rest (vertexStep ev point st)"

text \<open>
  The loop over the blocks of one submap: \<open>None\<close> when \<^verbatim>\<open>ros::ok()\<close> fails and the
  function returns the empty string.
\<close>

fun blockLoop :: "MapEvaluator \<Rightarrow> Mesh list \<Rightarrow> MeshState \<Rightarrow> MeshState option" where
  "blockLoop ev [] st = Some st"
| "blockLoop ev (mesh # rest) st =
     (if \<not> ros_ok ev (ok_calls st) then None
      else blockLoop ev rest (vertexLoop ev (vertices mesh) (st\<lparr>ok_calls := ok_calls st + 1\<rparr>)))"

fun submapLoop ::
  "MapEvaluator \<Rightarrow> EvaluationRequest \<Rightarrow> Submap list \<Rightarrow> MeshState \<Rightarrow> MeshState option" where
  "submapLoop ev request [] st = Some st"
| "submapLoop ev request (submap # rest) st =
     (if \<not> is_single_tsdf request \<and>
         (getLabel submap = kFreeSpace \<or> getChangeState submap = kAbsent \<or>
          getChangeState submap = kUnobserved)
      then submapLoop ev request rest st
      else (case blockLoop ev (getMeshLayer submap) st of
              None \<Rightarrow> None
            | Some st' \<Rightarrow> submapLoop ev request rest st'))"

record MeshSummary =
  ms_mean :: real
  ms_stddev :: real
  ms_rmse :: real
  ms_inliers :: nat
  ms_outliers :: nat

definition mesh_summary_of :: "MeshState \<Rightarrow> MeshSummary" where
  "mesh_summary_of st =
     \<lparr> ms_mean = report_mean (errors st), ms_stddev = report_stddev (errors st),
       ms_rmse = report_rmse (errors st), ms_inliers = mesh_inliers st,
       ms_outliers = mesh_outliers st \<rparr>"

text \<open>
  \<^verbatim>\<open>computeMeshError\<close>: the summary, \<open>None\<close> for the empty string of an interrupted
  pass, or the fault of dereferencing a null \<^verbatim>\<open>submaps_\<close>.
\<close>

definition computeMeshError :: "MapEvaluator \<Rightarrow> EvaluationRequest \<Rightarrow> fault + MeshSummary option" where
  "computeMeshError ev request =
     (case m_submaps ev of
        None \<Rightarrow> Inl NullPointer
      | Some submaps \<Rightarrow>
          Inr (map_option mesh_summary_of (submapLoop ev request submaps initial_mesh_state)))"

section \<open>The error colouring\<close>

text \<open>
  \<^verbatim>\<open>visualizeReconstructionError\<close> computes a colour from an error fraction twice with the
  same statements (lines 507 to 512 for a mesh vertex, 605 to 610 for a voxel). The
  triple holds the three arguments passed to the \<^verbatim>\<open>Color\<close> constructor, before their
  conversion to \<^verbatim>\<open>uint8_t\<close>; \<open>fraction\<close> is the local variable \<^verbatim>\<open>frac\<close>.
\<close>

definition error_color :: "real \<Rightarrow> real \<times> real \<times> real" where
  "error_color fraction =
     (let r = min ((fraction - 0.5) * 2 + 1) 1 * 255;
          g = (1 - fraction) * 2 * 255;
          g = (if fraction \<le> 0.5 then 190 + 130 * fraction else g)
      in (r, g, 0))"

text \<open>The red and the green argument as functions of the fraction.\<close>

definition red_channel :: "real \<Rightarrow> real" where
  "red_channel fraction = fst (error_color fraction)"

definition green_channel :: "real \<Rightarrow> real" where
  "green_channel fraction = fst (snd (error_color fraction))"

text \<open>
  The fraction of a mesh vertex (lines 504 to 506), from the squared distance to the
  nearest ground-truth point that the search returned.
\<close>

definition vertex_frac :: "EvaluationRequest \<Rightarrow> real \<Rightarrow> real" where
  "vertex_frac request out_dist_sqr =
     (let distance = sqrt out_dist_sqr
      in min distance (maximum_distance request) / maximum_distance request)"

text \<open>
  The fraction of a voxel (lines 570 to 603). \<open>results\<close> are the neighbours the search
  returned, each with its squared distance and the ground-truth point; \<open>interpolator\<close>
  is the distance query of the submap under evaluation.
\<close>

record NeighborState =
  total_error :: real
  max_error :: real
  counted_voxels :: int
  min_dist_sqr :: real

definition neighborStep ::
  "real \<Rightarrow> (Point \<Rightarrow> bool \<Rightarrow> real option) \<Rightarrow> Point \<times> real \<Rightarrow> NeighborState \<Rightarrow> NeighborState" where
  "neighborStep voxel_size_sqr interpolator result st =
     (let st1 = st\<lparr>min_dist_sqr := min (min_dist_sqr st) (snd result)\<rparr>
      in if snd result > voxel_size_sqr then st1
         else (case interpolator (fst result) True of
                 None \<Rightarrow> st1
               | Some distance \<Rightarrow>
                   (let error = \<bar>distance\<bar>
                    in st1\<lparr>total_error := total_error st1 + error,
                           max_error := max (max_error st1) error,
                           counted_voxels := counted_voxels st1 + 1\<rparr>)))"

definition voxel_frac ::
  "EvaluationRequest \<Rightarrow> real \<Rightarrow> (Point \<Rightarrow> bool \<Rightarrow> real option) \<Rightarrow> (Point \<times> real) list \<Rightarrow> real" where
  "voxel_frac request voxel_size_sqr interpolator results =
     (let st = foldl (\<lambda>st result. neighborStep voxel_size_sqr interpolator result st)
                 \<lparr> total_error = 0, max_error = 0, counted_voxels = 0, min_dist_sqr = 1000 \<rparr>
                 results;
          st = (if counted_voxels st = 0
                then st\<lparr>counted_voxels := 1,
                        total_error := total_error st + sqrt (min_dist_sqr st),
                        max_error := min_dist_sqr st\<rparr>
                else st)
      in if color_by_max_error request
         then min (max_error st) (maximum_distance request) / maximum_distance request
         else min (total_error st / real_of_int (counted_voxels st)) (maximum_distance request)
                / maximum_distance request)"

text \<open>What the neighbour loop keeps true when the squared distances are not negative.\<close>

definition neighbor_inv :: "NeighborState \<Rightarrow> bool" where
  "neighbor_inv st \<longleftrightarrow>
     0 \<le> total_error st \<and> 0 \<le> max_error st \<and> 0 \<le> counted_voxels st \<and> 0 \<le> min_dist_sqr st"

section \<open>The coverage export\<close>

text \<open>
  \<^verbatim>\<open>normalized()\<close> of Eigen (3.3 and later): the vector divided by its norm, the vector
  itself when its squared norm is not positive.
\<close>

definition normalized :: "real \<times> real \<times> real \<Rightarrow> real \<times> real \<times> real" where
  "normalized n =
     (case n of (x, y, z) \<Rightarrow>
        (let sq = x * x + y * y + z * z
         in if sq > 0 then (x / sqrt sq, y / sqrt sq, z / sqrt sq) else n))"

definition kCoverageGridVoxelSize :: real where
  "kCoverageGridVoxelSize = 5 / 100"

definition get_voxel_centroid :: "int \<times> int \<times> int \<Rightarrow> real \<Rightarrow> Point" where
  "get_voxel_centroid voxel_coordinates voxel_size =
     (case voxel_coordinates of (i, j, k) \<Rightarrow>
        (case normalized (real_of_int i, real_of_int j, real_of_int k) of (nx, ny, nz) \<Rightarrow>
           (let tx = nx * (voxel_size / 2); ty = ny * (voxel_size / 2); tz = nz * (voxel_size / 2)
            in \<lparr> px = real_of_int i * voxel_size + tx,
                 py = real_of_int j * voxel_size + ty,
                 pz = real_of_int k * voxel_size + tz \<rparr>)))"

text \<open>
  The collaborators behind the loads and queries: \<^verbatim>\<open>pcl::io::loadPLYFile\<close> (its return code
  and the cloud it read), \<^verbatim>\<open>SubmapCollection::loadFromFile\<close> (\<open>None\<close> when it returns
  false), \<^verbatim>\<open>voxblox::io::LoadLayer\<close> (the distance query of the layer, \<open>None\<close> when it
  fails), the queries of a \<^verbatim>\<open>PlanningInterface\<close> built over a submap collection, the
  voxel grid filter of pcl, \<^verbatim>\<open>std::filesystem::is_regular_file\<close>, the rows a
  \<^verbatim>\<open>CSVReader\<close> parses from a file, and whether an output file can be opened.
\<close>

record Environment =
  loadPLYFile :: "string \<Rightarrow> int \<times> Point list"
  loadFromFile :: "string \<Rightarrow> Submap list option"
  LoadLayer :: "string \<Rightarrow> (Point \<Rightarrow> bool \<Rightarrow> real option) option"
  PlanningInterface_getDistance :: "Submap list \<Rightarrow> Point \<Rightarrow> bool \<Rightarrow> bool \<Rightarrow> real option"
  PlanningInterface_isObserved :: "Submap list \<Rightarrow> Point \<Rightarrow> bool"
  VoxelGrid_filter :: "Point list \<Rightarrow> real \<Rightarrow> VoxelGrid \<times> Point list"
  is_regular_file :: "string \<Rightarrow> bool"
  CSVReader_rows :: "string \<Rightarrow> (32 word \<times> 32 word) list"
  output_file_opens :: "string \<Rightarrow> bool"

text \<open>
  The body of the innermost loop of \<^verbatim>\<open>exportCoveragePointcloud\<close> (lines 812 to 827) for
  one cell, on the coverage cloud built so far. \<^verbatim>\<open>at\<close> throws when the index is outside
  the filtered cloud.
\<close>

definition coverageCell ::
  "(Point \<Rightarrow> bool) \<Rightarrow> VoxelGrid \<Rightarrow> Point list \<Rightarrow> int \<times> int \<times> int \<Rightarrow> Point list
     \<Rightarrow> fault + Point list" where
  "coverageCell isObserved grid filtered cell coverage =
     (let centroid_index = getCentroidIndexAt grid cell
      in if centroid_index = - 1 then
           (let empty_voxel_centroid = get_voxel_centroid cell kCoverageGridVoxelSize
            in if isObserved empty_voxel_centroid
               then Inr (coverage @ [empty_voxel_centroid])
               else Inr coverage)
         else if 0 \<le> centroid_index \<and> nat centroid_index < length filtered then
           (let voxel_centroid = filtered ! nat centroid_index
            in if isObserved voxel_centroid
               then Inr (coverage @ [voxel_centroid])
               else Inr coverage)
         else Inl OutOfRange)"

text \<open>A \<^verbatim>\<open>for\<close> loop over a range whose body may stop the process.\<close>

fun forEach :: "'a list \<Rightarrow> ('a \<Rightarrow> 's \<Rightarrow> fault + 's) \<Rightarrow> 's \<Rightarrow> fault + 's" where
  "forEach [] body st = Inr st"
| "forEach (x # xs) body st =
     (case body x st of Inl f \<Rightarrow> Inl f | Inr st' \<Rightarrow> forEach xs body st')"

definition coverageLoop ::
  "(Point \<Rightarrow> bool) \<Rightarrow> VoxelGrid \<Rightarrow> Point list \<Rightarrow> fault + Point list" where
  "coverageLoop isObserved grid filtered =
     (case getMinBoxCoordinates grid of (min_x, min_y, min_z) \<Rightarrow>
      case getMaxBoxCoordinates grid of (max_x, max_y, max_z) \<Rightarrow>
        forEach [min_x..max_x] (\<lambda>i.
          forEach [min_y..max_y] (\<lambda>j.
            forEach [min_z..max_z] (\<lambda>k.
              coverageCell isObserved grid filtered (i, j, k)))) [])"

text \<open>
  \<^verbatim>\<open>exportCoveragePointcloud\<close>: the evaluator with the members it set and the cloud it
  writes, or the fault that stopped the process. A failed load of the ground truth
  (return code \<open>- 1\<close>) ends in \<^verbatim>\<open>LOG(FATAL)\<close>. The function ignores its argument and
  reads the member \<^verbatim>\<open>request_\<close>.
\<close>

definition exportCoveragePointcloud ::
  "Environment \<Rightarrow> MapEvaluator \<Rightarrow> fault + MapEvaluator \<times> Point list" where
  "exportCoveragePointcloud env ev =
     (case (case m_gt_cloud_ptr ev of
              Some cloud \<Rightarrow> Inr (ev, cloud)
            | None \<Rightarrow>
                (case loadPLYFile env (ground_truth_pointcloud_file (m_request ev)) of
                   (code, cloud) \<Rightarrow>
                     if code = - 1 then Inl FatalLog
                     else Inr (ev\<lparr>m_gt_cloud_ptr := Some cloud\<rparr>, cloud))) of
        Inl f \<Rightarrow> Inl f
      | Inr (ev1, cloud) \<Rightarrow>
          (let ev2 =
             (case m_gt_voxel_grid_ptr ev1 of
                Some grid \<Rightarrow> ev1
              | None \<Rightarrow>
                  (case VoxelGrid_filter env cloud kCoverageGridVoxelSize of
                     (grid, filtered) \<Rightarrow>
                       ev1\<lparr>m_gt_voxel_grid_ptr := Some grid,
                           m_filtered_gt_cloud_ptr := Some filtered\<rparr>))
           in case (m_gt_voxel_grid_ptr ev2, m_filtered_gt_cloud_ptr ev2, m_submaps ev2) of
                (Some grid, Some filtered, Some submaps) \<Rightarrow>
                  (case coverageLoop (PlanningInterface_isObserved env submaps) grid filtered of
                     Inl f \<Rightarrow> Inl f
                   | Inr coverage \<Rightarrow> Inr (ev2, coverage))
              | _ \<Rightarrow> Inl NullPointer))"

text \<open>
  The empty-cell point as the specification words it: the cell corner offset by half a
  cell size along the unit vector that points from the corner to the centre of the cell.
\<close>

definition spec_empty_cell_point :: "int \<times> int \<times> int \<Rightarrow> real \<Rightarrow> Point" where
  "spec_empty_cell_point cell s =
     (case cell of (i, j, k) \<Rightarrow>
        (case normalized (s / 2, s / 2, s / 2) of (ux, uy, uz) \<Rightarrow>
           \<lparr> px = real_of_int i * s + (s / 2) * ux,
             py = real_of_int j * s + (s / 2) * uy,
             pz = real_of_int k * s + (s / 2) * uz \<rparr>))"

section \<open>The labeled point cloud export\<close>

record LabeledPoint =
  lx :: real
  ly :: real
  lz :: real
  rgb :: "8 word \<times> 8 word \<times> 8 word"
  label :: "32 word"

text \<open>
  The label of one mesh vertex (lines 688 to 717), \<open>None\<close> where the loop continues with
  the next vertex. The \<^verbatim>\<open>int\<close> values of the class, instance and belonging ids are
  32-bit words; their product and sum wrap, which is what the conversion to the
  \<^verbatim>\<open>uint32_t\<close> label gives when the \<^verbatim>\<open>int\<close> arithmetic does not overflow.
  \<open>kOtherVoxelType\<close> stands for the voxel types of the \<^verbatim>\<open>default\<close> branch.
\<close>

definition vertexLabel :: "Submap \<Rightarrow> (Point \<Rightarrow> ClassVoxel) option \<Rightarrow> Point \<Rightarrow> 32 word option" where
  "vertexLabel submap class_block_ptr vertex =
     (case class_block_ptr of
        None \<Rightarrow> Some 0
      | Some getVoxelPtrByCoordinates \<Rightarrow>
          (let class_voxel = getVoxelPtrByCoordinates vertex;
               binary =
                 (if getBelongingID class_voxel = 0 then None
                  else Some (getClassID submap * 1000
                             + (if getLabel submap = kInstance then getInstanceID submap else 0)))
           in case getVoxelType class_voxel of
                kBinaryCount \<Rightarrow> binary
              | kMovingBinaryCount \<Rightarrow> binary
              | kPanopticWeight \<Rightarrow> Some (getBelongingID class_voxel)
              | kFixedCount \<Rightarrow> Some (getBelongingID class_voxel)
              | kVariableCount \<Rightarrow> Some (getBelongingID class_voxel)
              | kOtherVoxelType \<Rightarrow> None))"

text \<open>
  The body of the loop over the vertices of a mesh block (lines 685 to 729).
  \<^verbatim>\<open>colors.at(i)\<close> throws when the block has fewer colours than vertices.
\<close>

definition exportVertex :: "Submap \<Rightarrow> Mesh \<Rightarrow> nat \<Rightarrow> LabeledPoint list \<Rightarrow> fault + LabeledPoint list" where
  "exportVertex submap mesh i cloud =
     (if length (vertices mesh) \<le> i \<or> length (colors mesh) \<le> i then Inl OutOfRange
      else (let vertex = vertices mesh ! i; color = colors mesh ! i
            in case vertexLabel submap (class_block mesh) vertex of
                 None \<Rightarrow> Inr cloud
               | Some l \<Rightarrow>
                   if l > 50000 then Inr cloud
                   else Inr (cloud @ [\<lparr> lx = px vertex, ly = py vertex, lz = pz vertex,
                                        rgb = color, label = l \<rparr>])))"

definition collectLabeledPoints :: "Submap list \<Rightarrow> fault + LabeledPoint list" where
  "collectLabeledPoints submaps =
     forEach submaps (\<lambda>submap cloud.
       if \<not> hasClassLayer submap then Inr cloud
       else forEach (getMeshLayer submap) (\<lambda>mesh.
              forEach [0..<length (vertices mesh)] (exportVertex submap mesh)) cloud) []"

text \<open>
  The loop that reads the label map (lines 742 to 749): a row is stored unless one of its
  values is \<open>- 1\<close>, a later row for the same instance replaces an earlier one.
\<close>

fun read_label_map ::
  "(32 word \<times> 32 word) list \<Rightarrow> (32 word \<rightharpoonup> 32 word) \<Rightarrow> (32 word \<rightharpoonup> 32 word)" where
  "read_label_map [] label_map = label_map"
| "read_label_map ((inst, cls) # rows) label_map =
     read_label_map rows
       (if inst \<noteq> - 1 \<and> cls \<noteq> - 1 then label_map(inst \<mapsto> cls) else label_map)"

text \<open>The remapping of one point (lines 753 to 761) and the loop over the cloud.\<close>

definition remapPoint :: "(32 word \<rightharpoonup> 32 word) \<Rightarrow> LabeledPoint \<Rightarrow> LabeledPoint" where
  "remapPoint label_map point =
     (case label_map (label point) of
        Some second \<Rightarrow> point\<lparr>label := second * 1000 + label point\<rparr>
      | None \<Rightarrow> point\<lparr>label := label point * 1000\<rparr>)"

function remapLoop :: "(32 word \<rightharpoonup> 32 word) \<Rightarrow> nat \<Rightarrow> LabeledPoint list \<Rightarrow> LabeledPoint list" where
  "remapLoop label_map i cloud =
     (if i < length cloud
      then remapLoop label_map (i + 1) (cloud[i := remapPoint label_map (cloud ! i)])
      else cloud)"
  by pat_completeness auto
termination
  by (relation "measure (\<lambda>(label_map, i, cloud). length cloud - i)") auto

declare remapLoop.simps [simp del]

text \<open>What the filter on line 719 establishes for the exported cloud.\<close>

definition labels_bounded :: "LabeledPoint list \<Rightarrow> bool" where
  "labels_bounded cloud \<longleftrightarrow> (\<forall>point \<in> set cloud. label point \<le> 50000)"

definition label_map_file_path :: "MapEvaluator \<Rightarrow> string" where
  "label_map_file_path ev = m_target_directory ev @ ''/'' @ m_target_map_name ev @ ''.csv''"

text \<open>
  \<^verbatim>\<open>exportLabeledPointcloud\<close>: the cloud it writes. The remapping is done when the stored
  request is for a single TSDF and the label map file exists.
\<close>

definition exportLabeledPointcloud :: "Environment \<Rightarrow> MapEvaluator \<Rightarrow> fault + LabeledPoint list" where
  "exportLabeledPointcloud env ev =
     (case m_submaps ev of
        None \<Rightarrow> Inl NullPointer
      | Some submaps \<Rightarrow>
          (case collectLabeledPoints submaps of
             Inl f \<Rightarrow> Inl f
           | Inr cloud \<Rightarrow>
               if is_single_tsdf (m_request ev) \<and> is_regular_file env (label_map_file_path ev)
               then Inr (remapLoop
                           (read_label_map (CSVReader_rows env (label_map_file_path ev)) Map.empty)
                           0 cloud)
               else Inr cloud))"

section \<open>Loading the inputs and the service callback\<close>

text \<open>
  \<^verbatim>\<open>std::string::find_last_of\<close> and \<^verbatim>\<open>substr\<close>: positions are 64-bit, \<open>npos\<close> is the
  largest, and \<^verbatim>\<open>substr\<close> throws when the position is past the end.
\<close>

definition npos :: nat where
  "npos = 2 ^ 64 - 1"

fun find_last :: "string \<Rightarrow> char \<Rightarrow> nat option" where
  "find_last [] c = None"
| "find_last (x # xs) c =
     (case find_last xs c of
        Some i \<Rightarrow> Some (i + 1)
      | None \<Rightarrow> if x = c then Some 0 else None)"

definition find_last_of :: "string \<Rightarrow> char \<Rightarrow> nat" where
  "find_last_of s c = (case find_last s c of Some i \<Rightarrow> i | None \<Rightarrow> npos)"

definition substr :: "string \<Rightarrow> nat \<Rightarrow> nat \<Rightarrow> fault + string" where
  "substr s pos n = (if pos > length s then Inl OutOfRange else Inr (take n (drop pos s)))"

text \<open>
  The directory and the name of a map file (lines 148 to 154 and 427 to 432); the
  unsigned arithmetic on the positions wraps.
\<close>

definition map_name_of :: "string \<Rightarrow> fault + string \<times> string" where
  "map_name_of file =
     (case substr file (find_last_of file CHR ''.'') npos of
        Inl f \<Rightarrow> Inl f
      | Inr extension \<Rightarrow>
          (let separator = find_last_of file CHR ''/''
           in case substr file ((separator + 1) mod 2 ^ 64)
                     (nat ((int (length file) - int separator - int (length extension) - 1)
                           mod 2 ^ 64)) of
                Inl f \<Rightarrow> Inl f
              | Inr name \<Rightarrow> Inr (extension, name)))"

text \<open>\<^verbatim>\<open>EvaluationRequest::checkParams\<close>, which \<^verbatim>\<open>isValid\<close> evaluates.\<close>

definition isValid :: "EvaluationRequest \<Rightarrow> bool" where
  "isValid request \<longleftrightarrow> maximum_distance request > 0 \<and> inlier_distance request > 0"

text \<open>
  The first part of \<^verbatim>\<open>evaluate\<close>, up to "Setup output file" (lines 119 to 181):
  \<open>Some False\<close> is the early \<^verbatim>\<open>return false\<close>, \<open>None\<close> means that the inputs are loaded
  and the function goes on. A failed \<^verbatim>\<open>LoadLayer\<close> changes nothing and is not tested.
\<close>

definition evaluate_load ::
  "Environment \<Rightarrow> MapEvaluator \<Rightarrow> EvaluationRequest \<Rightarrow> fault + bool option \<times> MapEvaluator" where
  "evaluate_load env ev request =
     (if \<not> isValid request then Inr (Some False, ev)
      else
        (let gt =
           (if evaluate request \<or> compute_coloring request then
              (let loaded =
                 (if ground_truth_pointcloud_file request \<noteq> [] then
                    (case loadPLYFile env (ground_truth_pointcloud_file request) of
                       (code, cloud) \<Rightarrow>
                         if code \<noteq> 0 then (Some False, ev\<lparr>m_gt_cloud_ptr := None\<rparr>)
                         else (None, ev\<lparr>m_gt_cloud_ptr := Some cloud\<rparr>))
                  else (None, ev))
               in if fst loaded = None \<and> m_gt_cloud_ptr (snd loaded) = None
                  then (Some False, snd loaded)
                  else loaded)
            else (None, ev))
         in case gt of
              (Some b, ev1) \<Rightarrow> Inr (Some b, ev1)
            | (None, ev1) \<Rightarrow>
                (case (if map_file request \<noteq> [] then
                         (case map_name_of (map_file request) of
                            Inl f \<Rightarrow> Inl f
                          | Inr (extension, name) \<Rightarrow>
                              (let ev2 = ev1\<lparr>m_target_directory :=
                                              take (find_last_of (map_file request) CHR ''/'')
                                                (map_file request),
                                            m_target_map_name := name\<rparr>
                               in if extension = ''.panmap'' then
                                    (case loadFromFile env (map_file request) of
                                       None \<Rightarrow>
                                         Inr (Some False,
                                              ev2\<lparr>m_use_voxblox := False, m_submaps := None\<rparr>)
                                     | Some submaps \<Rightarrow>
                                         Inr (None,
                                              ev2\<lparr>m_use_voxblox := False,
                                                  m_submaps := Some submaps,
                                                  planning_getDistance :=
                                                    PlanningInterface_getDistance env submaps\<rparr>))
                                  else if extension = ''.vxblx'' then
                                    (case LoadLayer env (map_file request) of
                                       None \<Rightarrow> Inr (None, ev2\<lparr>m_use_voxblox := True\<rparr>)
                                     | Some layer \<Rightarrow>
                                         Inr (None, ev2\<lparr>m_use_voxblox := True,
                                                        interp_getDistance := layer\<rparr>))
                                  else Inr (Some False, ev2)))
                       else Inr (None, ev1)) of
                   Inl f \<Rightarrow> Inl f
                 | Inr (Some b, ev3) \<Rightarrow> Inr (Some b, ev3)
                 | Inr (None, ev3) \<Rightarrow>
                     if m_submaps ev3 = None \<and> \<not> m_use_voxblox ev3
                     then Inr (Some False, ev3)
                     else Inr (None, ev3))))"

text \<open>
  \<^verbatim>\<open>evaluateMapCallback\<close>, the handler of the \<^verbatim>\<open>process_map\<close> service: its return value
  and the evaluator it leaves, or the fault that stopped the process. What it writes to
  the output file and \<^verbatim>\<open>exportMesh\<close> change nothing that is modelled.
\<close>

definition evaluateMapCallback ::
  "Environment \<Rightarrow> MapEvaluator \<Rightarrow> string \<Rightarrow> fault + bool \<times> MapEvaluator" where
  "evaluateMapCallback env ev file_path =
     (case loadFromFile env file_path of
        None \<Rightarrow> Inr (False, ev\<lparr>m_submaps := None\<rparr>)
      | Some submaps \<Rightarrow>
          (let ev1 = ev\<lparr>m_submaps := Some submaps\<rparr>
           in case (if evaluate (m_request ev1) then
                      (let ev2 = ev1\<lparr>planning_getDistance :=
                                       PlanningInterface_getDistance env submaps\<rparr>
                       in case computeReconstructionError ev2 (m_request ev2) of
                            Inl f \<Rightarrow> Inl f
                          | Inr row \<Rightarrow>
                              (case computeMeshError ev2 (m_request ev2) of
                                 Inl f \<Rightarrow> Inl f
                               | Inr mesh_row \<Rightarrow> Inr ev2))
                    else Inr ev1) of
                Inl f \<Rightarrow> Inl f
              | Inr ev3 \<Rightarrow>
                  (case map_name_of file_path of
                     Inl f \<Rightarrow> Inl f
                   | Inr (extension, name) \<Rightarrow>
                       (let ev4 = ev3\<lparr>m_target_map_name := name\<rparr>
                        in case (if export_labeled_pointcloud (m_request ev4)
                                 then map_sum id (\<lambda>cloud. ()) (exportLabeledPointcloud env ev4)
                                 else Inr ()) of
                             Inl f \<Rightarrow> Inl f
                           | Inr u \<Rightarrow>
                               if export_coverage_pointcloud (m_request ev4)
                               then (case exportCoveragePointcloud env ev4 of
                                       Inl f \<Rightarrow> Inl f
                                     | Inr (ev5, coverage) \<Rightarrow> Inr (True, ev5))
                               else Inr (True, ev4)))))"

section \<open>Concrete inputs\<close>

definition witness_point :: "real \<Rightarrow> Point" where
  "witness_point v = \<lparr> px = v, py = 0, pz = 0 \<rparr>"

text \<open>
  A ground-truth cloud of 100 points: 98 in unobserved space, one at distance \<open>1 / 2\<close>
  and one at distance \<open>1 / 20\<close> from the surface.
\<close>

definition witness_cloud :: "Point list" where
  "witness_cloud =
     replicate 98 (witness_point (- 1)) @ [witness_point (1 / 2), witness_point (1 / 20)]"

definition witness_submap :: Submap where
  "witness_submap =
     \<lparr> getID = 0, getLabel = kInstance, getChangeState = kPersistent, getClassID = 3,
       getInstanceID = 7, hasClassLayer = False,
       getMeshLayer =
         [\<lparr> vertices = [witness_point 0, witness_point 1], colors = [(0, 0, 0), (0, 0, 0)],
            class_block = None \<rparr>] \<rparr>"

text \<open>
  An evaluator over that cloud whose map reports the first coordinate of a point as its
  distance and everything with a negative first coordinate as unobserved; the index
  holds the origin only.
\<close>

definition witness_evaluator :: MapEvaluator where
  "witness_evaluator =
     \<lparr> m_request = default_request, m_gt_cloud_ptr = Some witness_cloud,
       m_gt_voxel_grid_ptr = None, m_filtered_gt_cloud_ptr = None,
       m_submaps = Some [witness_submap],
       m_use_voxblox = False, m_target_directory = ''maps'', m_target_map_name = ''run1'',
       m_kdtree_data = [witness_point 0], interp_getDistance = (\<lambda>p b. None),
       planning_getDistance = (\<lambda>p a b. if px p < 0 then None else Some (px p)),
       ros_ok = (\<lambda>n. True) \<rparr>"

text \<open>
  A voxel grid of two cells along the first axis: the first holds the centroid with index
  0, the second is empty.
\<close>

definition witness_grid :: VoxelGrid where
  "witness_grid =
     \<lparr> getMinBoxCoordinates = (0, 0, 0), getMaxBoxCoordinates = (1, 0, 0),
       getCentroidIndexAt = (\<lambda>c. if c = (0, 0, 0) then 0 else - 1) \<rparr>"

text \<open>
  A submap with a class layer: two vertices whose class voxels of type
  \<^verbatim>\<open>kFixedCount\<close> carry the ids 7 and 9.
\<close>

definition labeled_submap :: Submap where
  "labeled_submap =
     \<lparr> getID = 1, getLabel = kBackground, getChangeState = kPersistent, getClassID = 0,
       getInstanceID = 0, hasClassLayer = True,
       getMeshLayer =
         [\<lparr> vertices = [witness_point 0, witness_point 1], colors = [(0, 0, 0), (9, 9, 9)],
            class_block =
              Some (\<lambda>p. \<lparr> getVoxelType = kFixedCount,
                           getBelongingID = (if px p = 0 then 7 else 9) \<rparr>) \<rparr>] \<rparr>"

text \<open>
  Collaborators for which every map file loads as the submap above and the label map
  file exists with the single row "instance 7 has class 3"; no ground-truth file can be
  read (\<^verbatim>\<open>loadPLYFile\<close> returns \<open>- 1\<close>).
\<close>

definition witness_environment :: Environment where
  "witness_environment =
     \<lparr> loadPLYFile = (\<lambda>file. (- 1, [])),
       loadFromFile = (\<lambda>file. Some [labeled_submap]),
       LoadLayer = (\<lambda>file. None),
       PlanningInterface_getDistance = (\<lambda>submaps p a b. if px p < 0 then None else Some (px p)),
       PlanningInterface_isObserved = (\<lambda>submaps p. 0 \<le> px p),
       VoxelGrid_filter =
         (\<lambda>cloud leaf.
            (\<lparr> getMinBoxCoordinates = (0, 0, 0), getMaxBoxCoordinates = (1, 0, 0),
               getCentroidIndexAt = (\<lambda>c. if c = (0, 0, 0) then 0 else - 1) \<rparr>,
             take 1 cloud)),
       is_regular_file = (\<lambda>file. True),
       CSVReader_rows = (\<lambda>file. [(7, 3)]),
       output_file_opens = (\<lambda>file. True) \<rparr>"

text \<open>
  A ground truth of two points, in the cells \<open>(- 2, 0, 0)\<close> and \<open>(0, 0, 0)\<close> of the
  coverage grid, and the voxel grid pcl builds over it: the box runs from \<open>- 2\<close> to 0
  along the first axis, the cell \<open>(- 1, 0, 0)\<close> between the two points is empty.
\<close>

definition gap_cloud :: "Point list" where
  "gap_cloud =
     [\<lparr> px = - 8 / 100, py = 1 / 100, pz = 1 / 100 \<rparr>,
      \<lparr> px = 1 / 100, py = 1 / 100, pz = 1 / 100 \<rparr>]"

definition gap_grid :: VoxelGrid where
  "gap_grid =
     \<lparr> getMinBoxCoordinates = (- 2, 0, 0), getMaxBoxCoordinates = (0, 0, 0),
       getCentroidIndexAt =
         (\<lambda>c. if c = (- 2, 0, 0) then 0 else if c = (0, 0, 0) then 1 else - 1) \<rparr>"

text \<open>
  Collaborators of a run in which the ground-truth file reads as the 100-point cloud,
  every panoptic map file loads as the labeled submap, no voxblox layer can be loaded
  (\<^verbatim>\<open>LoadLayer\<close> fails), the map observes every point, and the voxel grid filter gives
  the grid above.
\<close>

definition loading_environment :: Environment where
  "loading_environment =
     \<lparr> loadPLYFile = (\<lambda>file. (0, witness_cloud)),
       loadFromFile = (\<lambda>file. Some [labeled_submap]),
       LoadLayer = (\<lambda>file. None),
       PlanningInterface_getDistance = (\<lambda>submaps p a b. if px p < 0 then None else Some (px p)),
       PlanningInterface_isObserved = (\<lambda>submaps p. True),
       VoxelGrid_filter = (\<lambda>cloud leaf. (gap_grid, gap_cloud)),
       is_regular_file = (\<lambda>file. True),
       CSVReader_rows = (\<lambda>file. [(7, 3)]),
       output_file_opens = (\<lambda>file. True) \<rparr>"

text \<open>
  An evaluator as its constructor leaves it: the stored request has the defaults of the
  declaration, nothing is loaded.
\<close>

definition fresh_evaluator :: MapEvaluator where
  "fresh_evaluator =
     \<lparr> m_request = default_request, m_gt_cloud_ptr = None,
       m_gt_voxel_grid_ptr = None, m_filtered_gt_cloud_ptr = None,
       m_submaps = None,
       m_use_voxblox = False, m_target_directory = [], m_target_map_name = [],
       m_kdtree_data = [], interp_getDistance = (\<lambda>p b. None),
       planning_getDistance = (\<lambda>p a b. None),
       ros_ok = (\<lambda>n. True) \<rparr>"

text \<open>
  A request to \<^verbatim>\<open>evaluate\<close> that asks for an inlier distance of 1, and the evaluator
  after the inputs of that request are loaded.
\<close>

definition evaluate_request :: EvaluationRequest where
  "evaluate_request = default_request\<lparr>map_file := ''maps/run1.panmap'', inlier_distance := 1\<rparr>"

definition loaded_evaluator :: MapEvaluator where
  "loaded_evaluator =
     fresh_evaluator
       \<lparr>m_gt_cloud_ptr := Some witness_cloud,
        m_target_directory := ''maps'', m_target_map_name := ''run1'',
        m_use_voxblox := False, m_submaps := Some [labeled_submap],
        planning_getDistance := (\<lambda>p a b. if px p < 0 then None else Some (px p))\<rparr>"

text \<open>A request to \<^verbatim>\<open>evaluate\<close> a voxblox map.\<close>

definition vxblx_request :: EvaluationRequest where
  "vxblx_request = default_request\<lparr>map_file := ''maps/run1.vxblx''\<rparr>"

text \<open>
  The evaluator of a service that holds the two-point ground truth and a loaded map and
  is configured to export the coverage cloud only.
\<close>

definition coverage_only_request :: EvaluationRequest where
  "coverage_only_request =
     default_request\<lparr>evaluate := False, export_coverage_pointcloud := True\<rparr>"

definition service_evaluator :: MapEvaluator where
  "service_evaluator =
     witness_evaluator\<lparr>m_request := coverage_only_request, m_gt_cloud_ptr := Some gap_cloud,
                       m_submaps := Some [labeled_submap]\<rparr>"

text \<open>The evaluator of a single-TSDF run that holds the labeled submap.\<close>

definition single_tsdf_evaluator :: MapEvaluator where
  "single_tsdf_evaluator =
     witness_evaluator\<lparr>m_request := default_request\<lparr>is_single_tsdf := True\<rparr>,
                       m_submaps := Some [labeled_submap]\<rparr>"

section \<open>Properties of the reconstruction error pass\<close>

lemma errorLoop_append:
  "errorLoop ev request interval (ps @ qs) st =
     (case errorLoop ev request interval ps st of
        Inl f \<Rightarrow> Inl f
      | Inr st' \<Rightarrow> errorLoop ev request interval qs st')"
  by (induction ps arbitrary: st) (simp_all split: sum.splits)

lemma errorLoop_unknown:
  assumes "lookupDistance ev request p = None" and "interval \<noteq> 0"
  shows "errorLoop ev request interval (replicate n p) st =
           Inr (st\<lparr>total_points := total_points st + n,
                   unknown_points := unknown_points st + n,
                   count := count st + n\<rparr>)"
  using assms
  by (induction n arbitrary: st) (simp_all add: loopBody_def computeError_def Let_def)

lemma errorLoop_interval_zero:
  "errorLoop ev request 0 (p # ps) st = Inl ModuloByZero"
  by (simp add: loopBody_def Let_def)

lemma witness_pass:
  "reconstructionPass witness_evaluator
      (default_request\<lparr>ignore_truncated_points := b\<rparr>) =
   Inr \<lparr> total_points = 100, unknown_points = 98, truncated_points = 1, inliers = 1,
         abserror = (if b then [1 / 20] else [2 / 10, 1 / 20]), count = 100 \<rparr>"
proof -
  let ?ev = "witness_evaluator"
  let ?r = "default_request\<lparr>ignore_truncated_points := b\<rparr>"
  have len: "length witness_cloud div 100 = 1"
    by (simp add: witness_cloud_def)
  have unk: "lookupDistance ?ev ?r (witness_point (- 1)) = None"
    by (simp add: lookupDistance_def witness_evaluator_def witness_point_def default_request_def)
  have first: "errorLoop ?ev ?r 1 (replicate 98 (witness_point (- 1))) initial_state =
      Inr (initial_state\<lparr>total_points := 98, unknown_points := 98, count := 98\<rparr>)"
    using errorLoop_unknown [OF unk, of 1 98 initial_state] by (simp add: initial_state_def)
  have split: "errorLoop ?ev ?r 1 witness_cloud initial_state =
      errorLoop ?ev ?r 1 [witness_point (1 / 2), witness_point (1 / 20)]
        (initial_state\<lparr>total_points := 98, unknown_points := 98, count := 98\<rparr>)"
    by (simp only: witness_cloud_def errorLoop_append first sum.case)
  have gt: "m_gt_cloud_ptr ?ev = Some witness_cloud"
    by (simp add: witness_evaluator_def)
  show ?thesis
    unfolding reconstructionPass_def gt option.case len split
    by (simp add: loopBody_def computeError_def lookupDistance_def Let_def initial_state_def
        witness_evaluator_def witness_point_def default_request_def)
qed

lemma errorLoop_pass:
  assumes "errorLoop ev request interval ps st = Inr st'"
  shows "abserror st' = abserror st @ concat (map (spec_contribution ev request) ps)
       \<and> truncated_points st' =
           truncated_points st + length (filter (spec_is_truncated ev request) ps)"
  using assms
proof (induction ps arbitrary: st)
  case Nil
  then show ?case by simp
next
  case (Cons p ps)
  from Cons.prems obtain s1 where b: "loopBody ev request interval p st = Inr s1"
    and r: "errorLoop ev request interval ps s1 = Inr st'"
    by (auto split: sum.splits)
  from b have s1: "abserror s1 = abserror st @ spec_contribution ev request p
      \<and> truncated_points s1 =
          truncated_points st + (if spec_is_truncated ev request p then 1 else 0)"
    by (cases "lookupDistance ev request p")
       (auto simp: loopBody_def computeError_def spec_contribution_def spec_is_truncated_def
          Let_def split: if_splits)
  from Cons.IH [OF r] s1 show ?case by simp
qed

lemma reconstructionPass_samples:
  assumes "m_gt_cloud_ptr ev = Some cloud" and "reconstructionPass ev request = Inr final"
  shows "abserror final = concat (map (spec_contribution ev request) cloud)
       \<and> truncated_points final = length (filter (spec_is_truncated ev request) cloud)"
proof -
  from assms have "errorLoop ev request (length cloud div 100) cloud initial_state = Inr final"
    by (simp add: reconstructionPass_def)
  from errorLoop_pass [OF this] show ?thesis
    by (simp add: initial_state_def)
qed

text \<open>
  Claim C1. In the reconstruction error pass, a ground-truth point that is observed and
  whose raw absolute distance exceeds \<^verbatim>\<open>maximum_distance\<close> increments
  \<^verbatim>\<open>truncated_points\<close>; what it adds to the error samples is exactly
  \<^verbatim>\<open>maximum_distance\<close> when \<^verbatim>\<open>ignore_truncated_points\<close> is false, never the raw
  distance, and nothing when it is true. This holds for the classification of the point,
  for the whole iteration of the loop whenever the progress interval is not 0, and for
  the pass: when \<^verbatim>\<open>computeReconstructionError\<close> returns for a cloud that holds the point,
  the sample set is what the points before it give, then \<^verbatim>\<open>maximum_distance\<close> (or
  nothing), then what the points after it give, and the point is counted once in the
  reported \<^verbatim>\<open>truncated_points\<close>.
\<close>

theorem truncated_point_contributes_maximum_distance:
  assumes "lookupDistance ev request point = Some distance"
      and "maximum_distance request < \<bar>distance\<bar>"
  shows "truncated_points (computeError ev request (lookupDistance ev request point) st) =
           truncated_points st + 1
       \<and> abserror (computeError ev request (lookupDistance ev request point) st) =
           abserror st @ (if ignore_truncated_points request then [] else [maximum_distance request])
       \<and> (interval \<noteq> 0 \<longrightarrow>
            (\<exists>st'. loopBody ev request interval point st = Inr st'
                 \<and> truncated_points st' = truncated_points st + 1
                 \<and> abserror st' =
                     abserror st
                     @ (if ignore_truncated_points request then [] else [maximum_distance request])))
       \<and> (m_gt_cloud_ptr ev = Some (before @ point # after)
            \<and> reconstructionPass ev request = Inr final \<longrightarrow>
            abserror final =
              concat (map (spec_contribution ev request) before)
              @ (if ignore_truncated_points request then [] else [maximum_distance request])
              @ concat (map (spec_contribution ev request) after)
          \<and> truncated_points final =
              length (filter (spec_is_truncated ev request) before) + 1
              + length (filter (spec_is_truncated ev request) after)
          \<and> computeReconstructionError ev request = Inr (summary_of final)
          \<and> r_truncated_points (summary_of final) =
              length (filter (spec_is_truncated ev request) before) + 1
              + length (filter (spec_is_truncated ev request) after))"
proof (intro conjI impI)
  show "truncated_points (computeError ev request (lookupDistance ev request point) st) =
           truncated_points st + 1"
    using assms by (simp add: computeError_def Let_def)
  show "abserror (computeError ev request (lookupDistance ev request point) st) =
           abserror st @ (if ignore_truncated_points request then [] else [maximum_distance request])"
    using assms by (simp add: computeError_def Let_def)
  show "\<exists>st'. loopBody ev request interval point st = Inr st'
                 \<and> truncated_points st' = truncated_points st + 1
                 \<and> abserror st' =
                     abserror st
                     @ (if ignore_truncated_points request then [] else [maximum_distance request])"
    if "interval \<noteq> 0"
    using that assms by (simp add: loopBody_def computeError_def Let_def)
next
  assume pass: "m_gt_cloud_ptr ev = Some (before @ point # after)
            \<and> reconstructionPass ev request = Inr final"
  have c: "spec_contribution ev request point =
      (if ignore_truncated_points request then [] else [maximum_distance request])"
    using assms by (simp add: spec_contribution_def)
  have t: "spec_is_truncated ev request point"
    using assms by (simp add: spec_is_truncated_def)
  from pass have g: "m_gt_cloud_ptr ev = Some (before @ point # after)"
    and p: "reconstructionPass ev request = Inr final"
    by simp_all
  from reconstructionPass_samples [OF g p]
  show a: "abserror final =
              concat (map (spec_contribution ev request) before)
              @ (if ignore_truncated_points request then [] else [maximum_distance request])
              @ concat (map (spec_contribution ev request) after)"
    and n: "truncated_points final =
              length (filter (spec_is_truncated ev request) before) + 1
              + length (filter (spec_is_truncated ev request) after)"
    using c t by simp_all
  show "computeReconstructionError ev request = Inr (summary_of final)"
    using p by (simp add: computeReconstructionError_def)
  show "r_truncated_points (summary_of final) =
              length (filter (spec_is_truncated ev request) before) + 1
              + length (filter (spec_is_truncated ev request) after)"
    using n by (simp add: summary_of_def)
qed

theorem truncated_point_contributes_maximum_distance_witness:
  "lookupDistance witness_evaluator default_request (witness_point (1 / 2)) = Some (1 / 2)
   \<and> maximum_distance default_request < \<bar>1 / 2\<bar>
   \<and> truncated_points (computeError witness_evaluator default_request
         (lookupDistance witness_evaluator default_request (witness_point (1 / 2))) initial_state) = 1
   \<and> abserror (computeError witness_evaluator default_request
         (lookupDistance witness_evaluator default_request (witness_point (1 / 2))) initial_state) =
       [maximum_distance default_request]
   \<and> abserror (computeError witness_evaluator (default_request\<lparr>ignore_truncated_points := True\<rparr>)
         (lookupDistance witness_evaluator (default_request\<lparr>ignore_truncated_points := True\<rparr>)
            (witness_point (1 / 2))) initial_state) = []
   \<and> (\<exists>st'. loopBody witness_evaluator default_request 1 (witness_point (1 / 2)) initial_state
               = Inr st'
           \<and> truncated_points st' = 1 \<and> abserror st' = [maximum_distance default_request])
   \<and> m_gt_cloud_ptr witness_evaluator =
       Some (replicate 98 (witness_point (- 1)) @ witness_point (1 / 2) # [witness_point (1 / 20)])
   \<and> reconstructionPass witness_evaluator default_request =
       Inr \<lparr> total_points = 100, unknown_points = 98, truncated_points = 1, inliers = 1,
             abserror = [2 / 10, 1 / 20], count = 100 \<rparr>
   \<and> concat (map (spec_contribution witness_evaluator default_request)
         (replicate 98 (witness_point (- 1)))) @ [maximum_distance default_request]
       @ concat (map (spec_contribution witness_evaluator default_request) [witness_point (1 / 20)])
       = [2 / 10, 1 / 20]
   \<and> length (filter (spec_is_truncated witness_evaluator default_request)
         (replicate 98 (witness_point (- 1)))) + 1
       + length (filter (spec_is_truncated witness_evaluator default_request)
           [witness_point (1 / 20)]) = 1
   \<and> (\<exists>summary. computeReconstructionError witness_evaluator default_request = Inr summary
         \<and> r_truncated_points summary = 1)"
proof -
  let ?r = "default_request\<lparr>ignore_truncated_points := True\<rparr>"
  let ?final = "\<lparr> total_points = 100, unknown_points = 98, truncated_points = 1, inliers = 1,
             abserror = [2 / 10, 1 / 20], count = 100 \<rparr>"
  have l: "lookupDistance witness_evaluator default_request (witness_point (1 / 2)) = Some (1 / 2)"
    by (simp add: lookupDistance_def witness_evaluator_def witness_point_def default_request_def)
  have l': "lookupDistance witness_evaluator ?r (witness_point (1 / 2)) = Some (1 / 2)"
    by (simp add: lookupDistance_def witness_evaluator_def witness_point_def default_request_def)
  have m: "maximum_distance default_request < \<bar>1 / 2\<bar>"
    by (simp add: default_request_def)
  have m': "maximum_distance ?r < \<bar>1 / 2\<bar>"
    by (simp add: default_request_def)
  have i: "\<not> ignore_truncated_points default_request" "abserror initial_state = []"
    "truncated_points initial_state = 0"
    by (simp_all add: default_request_def initial_state_def)
  have g: "m_gt_cloud_ptr witness_evaluator =
       Some (replicate 98 (witness_point (- 1)) @ witness_point (1 / 2) # [witness_point (1 / 20)])"
    by (simp add: witness_evaluator_def witness_cloud_def)
  have d: "default_request\<lparr>ignore_truncated_points := False\<rparr> = default_request"
    by (simp add: default_request_def)
  have p: "reconstructionPass witness_evaluator default_request = Inr ?final"
    using witness_pass [of False] by (simp add: d)
  note main = truncated_point_contributes_maximum_distance [OF l m, of initial_state 1
      "replicate 98 (witness_point (- 1))" "[witness_point (1 / 20)]" ?final]
  note ign = truncated_point_contributes_maximum_distance [OF l' m', of initial_state 1]
  from main g p have pass:
    "abserror ?final =
       concat (map (spec_contribution witness_evaluator default_request)
         (replicate 98 (witness_point (- 1)))) @ [maximum_distance default_request]
       @ concat (map (spec_contribution witness_evaluator default_request) [witness_point (1 / 20)])"
    "truncated_points ?final =
       length (filter (spec_is_truncated witness_evaluator default_request)
         (replicate 98 (witness_point (- 1)))) + 1
       + length (filter (spec_is_truncated witness_evaluator default_request)
           [witness_point (1 / 20)])"
    "computeReconstructionError witness_evaluator default_request = Inr (summary_of ?final)"
    using i(1) by simp_all
  have s: "r_truncated_points (summary_of ?final) = 1"
    by (simp add: summary_of_def)
  from main ign have step:
    "truncated_points (computeError witness_evaluator default_request
         (lookupDistance witness_evaluator default_request (witness_point (1 / 2))) initial_state) = 1"
    "abserror (computeError witness_evaluator default_request
         (lookupDistance witness_evaluator default_request (witness_point (1 / 2))) initial_state) =
       [maximum_distance default_request]"
    "abserror (computeError witness_evaluator ?r
         (lookupDistance witness_evaluator ?r (witness_point (1 / 2))) initial_state) = []"
    "\<exists>st'. loopBody witness_evaluator default_request 1 (witness_point (1 / 2)) initial_state
               = Inr st'
           \<and> truncated_points st' = 1 \<and> abserror st' = [maximum_distance default_request]"
    using i by simp_all
  from pass(1) have truncated_point_contributes_maximum_distance: "concat (map (spec_contribution witness_evaluator default_request)
         (replicate 98 (witness_point (- 1)))) @ [maximum_distance default_request]
       @ concat (map (spec_contribution witness_evaluator default_request) [witness_point (1 / 20)])
       = [2 / 10, 1 / 20]"
    by simp
  from pass(2) have c2: "length (filter (spec_is_truncated witness_evaluator default_request)
         (replicate 98 (witness_point (- 1)))) + 1
       + length (filter (spec_is_truncated witness_evaluator default_request)
           [witness_point (1 / 20)]) = 1"
    by simp
  from pass(3) s have c3: "\<exists>summary. computeReconstructionError witness_evaluator default_request
      = Inr summary \<and> r_truncated_points summary = 1"
    by blast
  show ?thesis
    using l m step g p truncated_point_contributes_maximum_distance c2 c3 by (intro conjI)
qed

lemma witness_cloud_pass:
  assumes gt: "m_gt_cloud_ptr ev = Some witness_cloud"
      and look: "\<And>v. lookupDistance ev request (witness_point v) = (if v < 0 then None else Some v)"
      and mx: "maximum_distance request = 2 / 10"
      and il: "inlier_distance (m_request ev) = 1 / 10"
  shows "reconstructionPass ev request =
     Inr \<lparr> total_points = 100, unknown_points = 98, truncated_points = 1, inliers = 1,
           abserror = (if ignore_truncated_points request then [1 / 20] else [2 / 10, 1 / 20]),
           count = 100 \<rparr>"
proof -
  have len: "length witness_cloud div 100 = 1"
    by (simp add: witness_cloud_def)
  have unk: "lookupDistance ev request (witness_point (- 1)) = None"
    by (simp add: look)
  have first: "errorLoop ev request 1 (replicate 98 (witness_point (- 1))) initial_state =
      Inr (initial_state\<lparr>total_points := 98, unknown_points := 98, count := 98\<rparr>)"
    using errorLoop_unknown [OF unk, of 1 98 initial_state] by (simp add: initial_state_def)
  have split: "errorLoop ev request 1 witness_cloud initial_state =
      errorLoop ev request 1 [witness_point (1 / 2), witness_point (1 / 20)]
        (initial_state\<lparr>total_points := 98, unknown_points := 98, count := 98\<rparr>)"
    by (simp only: witness_cloud_def errorLoop_append first sum.case)
  show ?thesis
    unfolding reconstructionPass_def gt option.case len split
    by (simp add: loopBody_def computeError_def look mx il Let_def initial_state_def)
qed

lemma errorLoop_ignore_related:
  assumes "errorLoop ev (request\<lparr>ignore_truncated_points := True\<rparr>) interval ps s1 = Inr t1"
      and "errorLoop ev (request\<lparr>ignore_truncated_points := False\<rparr>) interval ps s2 = Inr t2"
      and "length (abserror s1) \<le> length (abserror s2)"
      and "truncated_points s1 = truncated_points s2"
  shows "length (abserror t1) \<le> length (abserror t2) \<and> truncated_points t1 = truncated_points t2"
  using assms
proof (induction ps arbitrary: s1 s2)
  case Nil
  then show ?case by simp
next
  case (Cons p ps)
  let ?rt = "request\<lparr>ignore_truncated_points := True\<rparr>"
  let ?rf = "request\<lparr>ignore_truncated_points := False\<rparr>"
  from Cons.prems(1) obtain u1 where u1: "loopBody ev ?rt interval p s1 = Inr u1"
    and r1: "errorLoop ev ?rt interval ps u1 = Inr t1"
    by (auto split: sum.splits)
  from Cons.prems(2) obtain u2 where u2: "loopBody ev ?rf interval p s2 = Inr u2"
    and r2: "errorLoop ev ?rf interval ps u2 = Inr t2"
    by (auto split: sum.splits)
  have same: "lookupDistance ev ?rt p = lookupDistance ev ?rf p"
    by (simp add: lookupDistance_def)
  have "length (abserror u1) \<le> length (abserror u2) \<and> truncated_points u1 = truncated_points u2"
    using u1 u2 Cons.prems(3,4) same
    by (cases "lookupDistance ev ?rf p")
       (auto simp: loopBody_def computeError_def Let_def split: if_splits)
  then show ?case
    using Cons.IH [OF r1 r2] by simp
qed

lemma errorLoop_returns:
  assumes "interval \<noteq> 0"
  shows "\<exists>st'. errorLoop ev request interval ps st = Inr st'"
  using assms by (induction ps arbitrary: st) (simp_all add: loopBody_def Let_def)

lemma reconstructionPass_returns:
  assumes "m_gt_cloud_ptr ev = Some cloud" and "cloud = [] \<or> 100 \<le> length cloud"
  shows "\<exists>st. reconstructionPass ev request = Inr st"
proof (cases "cloud = []")
  case True
  with assms(1) show ?thesis by (simp add: reconstructionPass_def)
next
  case False
  with assms(2) have "length cloud div 100 \<noteq> 0"
    by (simp add: div_eq_0_iff not_less)
  then show ?thesis
    using assms(1) by (simp add: reconstructionPass_def errorLoop_returns)
qed

text \<open>
  Claim C2. For the same ground-truth cloud and map, the pass run with
  \<^verbatim>\<open>ignore_truncated_points = true\<close> ends with a sample set no larger than the pass run
  with \<^verbatim>\<open>false\<close>, and with the same \<^verbatim>\<open>truncated_points\<close>; both runs return when the
  cloud is empty or has at least 100 points.
\<close>

theorem ignore_truncated_points_shrinks_sample_set:
  "(reconstructionPass ev (request\<lparr>ignore_truncated_points := True\<rparr>) = Inr st_ignore
      \<and> reconstructionPass ev (request\<lparr>ignore_truncated_points := False\<rparr>) = Inr st_keep \<longrightarrow>
      length (abserror st_ignore) \<le> length (abserror st_keep)
    \<and> truncated_points st_ignore = truncated_points st_keep)
   \<and> (m_gt_cloud_ptr ev = Some cloud \<and> (cloud = [] \<or> 100 \<le> length cloud) \<longrightarrow>
        (\<exists>s1 s2. reconstructionPass ev (request\<lparr>ignore_truncated_points := True\<rparr>) = Inr s1
               \<and> reconstructionPass ev (request\<lparr>ignore_truncated_points := False\<rparr>) = Inr s2))"
proof (intro conjI impI)
  assume both: "reconstructionPass ev (request\<lparr>ignore_truncated_points := True\<rparr>) = Inr st_ignore
      \<and> reconstructionPass ev (request\<lparr>ignore_truncated_points := False\<rparr>) = Inr st_keep"
  then obtain cloud' where c: "m_gt_cloud_ptr ev = Some cloud'"
    by (cases "m_gt_cloud_ptr ev") (simp_all add: reconstructionPass_def)
  with both have
    "errorLoop ev (request\<lparr>ignore_truncated_points := True\<rparr>) (length cloud' div 100) cloud'
       initial_state = Inr st_ignore"
    "errorLoop ev (request\<lparr>ignore_truncated_points := False\<rparr>) (length cloud' div 100) cloud'
       initial_state = Inr st_keep"
    by (simp_all add: reconstructionPass_def)
  then have r: "length (abserror st_ignore) \<le> length (abserror st_keep)
      \<and> truncated_points st_ignore = truncated_points st_keep"
    by (rule errorLoop_ignore_related) simp_all
  from r show "length (abserror st_ignore) \<le> length (abserror st_keep)" ..
  from r show "truncated_points st_ignore = truncated_points st_keep" ..
next
  assume "m_gt_cloud_ptr ev = Some cloud \<and> (cloud = [] \<or> 100 \<le> length cloud)"
  then have g: "m_gt_cloud_ptr ev = Some cloud" and n: "cloud = [] \<or> 100 \<le> length cloud"
    by simp_all
  from reconstructionPass_returns [OF g n, of "request\<lparr>ignore_truncated_points := True\<rparr>"]
    reconstructionPass_returns [OF g n, of "request\<lparr>ignore_truncated_points := False\<rparr>"]
  show "\<exists>s1 s2. reconstructionPass ev (request\<lparr>ignore_truncated_points := True\<rparr>) = Inr s1
               \<and> reconstructionPass ev (request\<lparr>ignore_truncated_points := False\<rparr>) = Inr s2"
    by blast
qed

theorem ignore_truncated_points_shrinks_sample_set_witness:
  "reconstructionPass witness_evaluator (default_request\<lparr>ignore_truncated_points := True\<rparr>) =
     Inr \<lparr> total_points = 100, unknown_points = 98, truncated_points = 1, inliers = 1,
           abserror = [1 / 20], count = 100 \<rparr>
   \<and> reconstructionPass witness_evaluator (default_request\<lparr>ignore_truncated_points := False\<rparr>) =
     Inr \<lparr> total_points = 100, unknown_points = 98, truncated_points = 1, inliers = 1,
           abserror = [2 / 10, 1 / 20], count = 100 \<rparr>
   \<and> length [1 / 20 :: real] \<le> length [2 / 10, 1 / 20 :: real]
   \<and> m_gt_cloud_ptr witness_evaluator = Some witness_cloud
   \<and> 100 \<le> length witness_cloud"
proof -
  have t: "reconstructionPass witness_evaluator (default_request\<lparr>ignore_truncated_points := True\<rparr>) =
     Inr \<lparr> total_points = 100, unknown_points = 98, truncated_points = 1, inliers = 1,
           abserror = [1 / 20], count = 100 \<rparr>"
    using witness_pass [of True] by simp
  have f: "reconstructionPass witness_evaluator (default_request\<lparr>ignore_truncated_points := False\<rparr>) =
     Inr \<lparr> total_points = 100, unknown_points = 98, truncated_points = 1, inliers = 1,
           abserror = [2 / 10, 1 / 20], count = 100 \<rparr>"
    using witness_pass [of False] by simp
  have g: "m_gt_cloud_ptr witness_evaluator = Some witness_cloud"
    by (simp add: witness_evaluator_def)
  have n: "100 \<le> length witness_cloud"
    by (simp add: witness_cloud_def)
  from ignore_truncated_points_shrinks_sample_set [where ev = witness_evaluator and request = default_request and cloud = witness_cloud
      and st_ignore = "\<lparr> total_points = 100, unknown_points = 98, truncated_points = 1,
             inliers = 1, abserror = [1 / 20], count = 100 \<rparr>"
      and st_keep = "\<lparr> total_points = 100, unknown_points = 98, truncated_points = 1,
             inliers = 1, abserror = [2 / 10, 1 / 20], count = 100 \<rparr>"]
  show ?thesis
    using t f g n by simp
qed

text \<open>
  The inlier counter of the classification block: it is incremented exactly when the
  raw absolute distance is at most the inlier distance of the stored request
  \<^verbatim>\<open>request_\<close>, whether or not the point was truncated; when the stored request is the
  argument, a truncated point can count as an inlier.
\<close>

lemma inlier_test_reads_raw_distance:
  "inliers (computeError ev request (Some distance) st) =
     inliers st + (if \<bar>distance\<bar> \<le> inlier_distance (m_request ev) then 1 else 0)
   \<and> (\<exists>ev' request' distance' st'.
         m_request ev' = request'
       \<and> maximum_distance request' < inlier_distance request'
       \<and> maximum_distance request' < \<bar>distance'\<bar>
       \<and> truncated_points (computeError ev' request' (Some distance') st') = truncated_points st' + 1
       \<and> inliers (computeError ev' request' (Some distance') st') = inliers st' + 1)"
proof
  show "inliers (computeError ev request (Some distance) st) =
     inliers st + (if \<bar>distance\<bar> \<le> inlier_distance (m_request ev) then 1 else 0)"
    by (simp add: computeError_def Let_def)
next
  let ?r = "default_request\<lparr>inlier_distance := 1 / 2\<rparr>"
  let ?ev = "witness_evaluator\<lparr>m_request := ?r\<rparr>"
  have "m_request ?ev = ?r" by simp
  moreover have "maximum_distance ?r < inlier_distance ?r"
    by (simp add: default_request_def)
  moreover have "maximum_distance ?r < \<bar>3 / 10\<bar>"
    by (simp add: default_request_def)
  moreover have "truncated_points (computeError ?ev ?r (Some (3 / 10)) initial_state) =
      truncated_points initial_state + 1"
    by (simp add: computeError_def Let_def default_request_def)
  moreover have "inliers (computeError ?ev ?r (Some (3 / 10)) initial_state) =
      inliers initial_state + 1"
    by (simp add: computeError_def Let_def default_request_def)
  ultimately show "\<exists>ev' request' distance' st'.
         m_request ev' = request'
       \<and> maximum_distance request' < inlier_distance request'
       \<and> maximum_distance request' < \<bar>distance'\<bar>
       \<and> truncated_points (computeError ev' request' (Some distance') st') = truncated_points st' + 1
       \<and> inliers (computeError ev' request' (Some distance') st') = inliers st' + 1"
    by blast
qed

lemma computeError_counters:
  assumes "inliers st + unknown_points st \<le> total_points st"
  shows "inliers (computeError ev request looked (st\<lparr>total_points := total_points st + 1\<rparr>))
           + unknown_points (computeError ev request looked (st\<lparr>total_points := total_points st + 1\<rparr>))
         \<le> total_points (computeError ev request looked (st\<lparr>total_points := total_points st + 1\<rparr>))"
  using assms by (cases looked) (simp_all add: computeError_def Let_def)

lemma errorLoop_counters:
  assumes "errorLoop ev request interval ps st = Inr st'"
      and "inliers st + unknown_points st \<le> total_points st"
  shows "inliers st' + unknown_points st' \<le> total_points st'"
  using assms
proof (induction ps arbitrary: st)
  case Nil
  then show ?case by simp
next
  case (Cons p ps)
  from Cons.prems(1) obtain s1 where b: "loopBody ev request interval p st = Inr s1"
    and r: "errorLoop ev request interval ps s1 = Inr st'"
    by (auto split: sum.splits)
  from b have "inliers s1 + unknown_points s1 \<le> total_points s1"
    using computeError_counters [OF Cons.prems(2), of ev request "lookupDistance ev request p"]
    by (auto simp: loopBody_def Let_def split: if_splits)
  with r show ?case by (rule Cons.IH)
qed

lemma inliers_bounded:
  assumes "reconstructionPass ev request = Inr st"
  shows "inliers st \<le> total_points st - unknown_points st"
proof -
  from assms obtain cloud where
    "errorLoop ev request (length cloud div 100) cloud initial_state = Inr st"
    by (auto simp: reconstructionPass_def split: option.splits)
  then have "inliers st + unknown_points st \<le> total_points st"
    by (rule errorLoop_counters) (simp add: initial_state_def)
  then show ?thesis by simp
qed

text \<open>
  Claim C10. The progress guard of \<^verbatim>\<open>computeReconstructionError\<close> takes
  \<^verbatim>\<open>count\<close> modulo \<open>interval = n div 100\<close> for a cloud of \<open>n\<close> points. The divisor is
  nonzero exactly when \<open>n \<ge> 100\<close>, so for a non-empty cloud of fewer than 100 points the
  first iteration of the loop reaches the division by zero, and so does the pass.
\<close>

theorem progress_guard_divides_by_zero_below_100_points:
  assumes "m_gt_cloud_ptr ev = Some cloud"
  shows "(length cloud div 100 \<noteq> 0 \<longleftrightarrow> 100 \<le> length cloud)
       \<and> (cloud \<noteq> [] \<and> length cloud < 100 \<longrightarrow>
            loopBody ev request (length cloud div 100) (hd cloud) initial_state = Inl ModuloByZero
          \<and> computeReconstructionError ev request = Inl ModuloByZero)"
proof (intro conjI impI)
  show "length cloud div 100 \<noteq> 0 \<longleftrightarrow> 100 \<le> length cloud"
    by (simp add: div_eq_0_iff not_less)
next
  assume a: "cloud \<noteq> [] \<and> length cloud < 100"
  then have z: "length cloud div 100 = 0" by simp
  show "loopBody ev request (length cloud div 100) (hd cloud) initial_state = Inl ModuloByZero"
    by (simp add: z loopBody_def Let_def)
  from a obtain p ps where c: "cloud = p # ps" by (cases cloud) auto
  have "errorLoop ev request 0 cloud initial_state = Inl ModuloByZero"
    unfolding c by (rule errorLoop_interval_zero)
  then show "computeReconstructionError ev request = Inl ModuloByZero"
    using assms z by (simp add: computeReconstructionError_def reconstructionPass_def)
qed

theorem progress_guard_divides_by_zero_below_100_points_witness:
  "m_gt_cloud_ptr (witness_evaluator\<lparr>m_gt_cloud_ptr := Some [witness_point 0]\<rparr>) = Some [witness_point 0]
   \<and> [witness_point 0] \<noteq> [] \<and> length [witness_point 0] < 100
   \<and> loopBody (witness_evaluator\<lparr>m_gt_cloud_ptr := Some [witness_point 0]\<rparr>) default_request
        (length [witness_point 0] div 100) (hd [witness_point 0]) initial_state = Inl ModuloByZero
   \<and> computeReconstructionError (witness_evaluator\<lparr>m_gt_cloud_ptr := Some [witness_point 0]\<rparr>)
        default_request = Inl ModuloByZero"
proof -
  let ?ev = "witness_evaluator\<lparr>m_gt_cloud_ptr := Some [witness_point 0]\<rparr>"
  have g: "m_gt_cloud_ptr ?ev = Some [witness_point 0]" by simp
  from progress_guard_divides_by_zero_below_100_points [OF g, of default_request]
  show ?thesis by simp
qed

lemma lookupDistance_inlier_distance:
  "lookupDistance ev (request\<lparr>inlier_distance := d\<rparr>) p = lookupDistance ev request p"
  by (simp add: lookupDistance_def)

lemma computeError_inlier_distance:
  "computeError ev (request\<lparr>inlier_distance := d\<rparr>) looked st = computeError ev request looked st"
  by (cases looked) (simp_all add: computeError_def Let_def)

lemma loopBody_inlier_distance:
  "loopBody ev (request\<lparr>inlier_distance := d\<rparr>) interval p st = loopBody ev request interval p st"
  by (simp add: loopBody_def computeError_inlier_distance lookupDistance_inlier_distance)

lemma errorLoop_inlier_distance:
  "errorLoop ev (request\<lparr>inlier_distance := d\<rparr>) interval ps st = errorLoop ev request interval ps st"
  by (induction ps arbitrary: st) (simp_all add: loopBody_inlier_distance cong: sum.case_cong)

lemma submapLoop_inlier_distance:
  "submapLoop ev (request\<lparr>inlier_distance := d\<rparr>) submaps st = submapLoop ev request submaps st"
  by (induction submaps arbitrary: st) (simp_all split: option.splits)

text \<open>
  Claim C9. Both error passes are insensitive to the \<^verbatim>\<open>inlier_distance\<close> of the request
  argument: with the same evaluator (and so the same stored \<^verbatim>\<open>request_\<close>), two
  arguments that differ only in that field give the same result, inlier and outlier
  counts included.
\<close>

theorem passes_ignore_argument_inlier_distance:
  "computeReconstructionError ev (request\<lparr>inlier_distance := d\<rparr>) =
     computeReconstructionError ev request
   \<and> computeMeshError ev (request\<lparr>inlier_distance := d\<rparr>) = computeMeshError ev request"
proof
  have "reconstructionPass ev (request\<lparr>inlier_distance := d\<rparr>) = reconstructionPass ev request"
    by (simp add: reconstructionPass_def errorLoop_inlier_distance cong: option.case_cong)
  then show "computeReconstructionError ev (request\<lparr>inlier_distance := d\<rparr>) =
     computeReconstructionError ev request"
    by (simp add: computeReconstructionError_def)
next
  show "computeMeshError ev (request\<lparr>inlier_distance := d\<rparr>) = computeMeshError ev request"
    by (simp add: computeMeshError_def submapLoop_inlier_distance cong: option.case_cong)
qed

section \<open>Properties of the summary statistics\<close>

lemma foldl_add_sum_list:
  "foldl (\<lambda>s v. s + f v) a xs = a + sum_list (map f xs)"
  for a :: real
  by (induction xs arbitrary: a) simp_all

lemma foldl_sum_and_squares:
  "foldl (\<lambda>(mean, rmse) v. (mean + v, rmse + v ^ 2)) (a, b) xs =
     (a + sum_list xs, b + sum_list (map (\<lambda>v. v ^ 2) xs))"
  for a b :: real
  by (induction xs arbitrary: a b) simp_all

lemma sum_and_squares_eq:
  "sum_and_squares xs = (sum_list xs, sum_list (map (\<lambda>v. v ^ 2) xs))"
  by (simp add: sum_and_squares_def foldl_sum_and_squares)

lemma report_mean_eq:
  "report_mean xs = (if xs = [] then 0 else sum_list xs / real (length xs))"
  by (simp add: report_mean_def sum_and_squares_eq)

lemma report_rmse_eq:
  "report_rmse xs = (if xs = [] then 0 else sqrt (sum_list (map (\<lambda>v. v ^ 2) xs) / real (length xs)))"
  by (simp add: report_rmse_def sum_and_squares_eq)

lemma report_stddev_eq:
  "report_stddev xs =
     (if 2 < length xs
      then sqrt (sum_list (map (\<lambda>v. (v - report_mean xs) ^ 2) xs) / (real (length xs) - 1))
      else sum_list (map (\<lambda>v. (v - report_mean xs) ^ 2) xs))"
  by (simp add: report_stddev_def Let_def foldl_add_sum_list of_nat_diff)

lemma report_empty: "report_mean [] = 0 \<and> report_rmse [] = 0 \<and> report_stddev [] = 0"
  by (simp add: report_mean_eq report_rmse_eq report_stddev_eq)

lemma report_stddev_single: "report_stddev [a] = 0"
  by (simp add: report_mean_eq report_stddev_eq)

lemma report_stddev_pair: "report_stddev [a, b] = (a - b) ^ 2 / 2"
  by (simp add: report_mean_eq report_stddev_eq power2_eq_square field_simps)

lemma witness_mesh_pass:
  "submapLoop witness_evaluator default_request [witness_submap] initial_mesh_state =
     Some \<lparr> ok_calls = 1, mesh_inliers = 1, mesh_outliers = 1, errors = [0, 1] \<rparr>"
  by (simp add: witness_submap_def witness_evaluator_def default_request_def initial_mesh_state_def
      vertexStep_def knnSearch1_def norm_diff_def dist_sqr_def witness_point_def Let_def)

text \<open>
  Claim C3 says that the reported standard deviation is 0 unless the sample set has more
  than two elements. The code returns the accumulator of its second loop when the set
  has at most two elements: with two different samples that is the sum of the squared
  deviations, not 0. The mesh pass over two vertices with errors 0 and 1 reports
  \<open>1 / 2\<close>, and the reconstruction pass over the 100-point cloud, whose samples are
  \<open>2 / 10\<close> and \<open>1 / 20\<close>, reports \<open>9 / 800\<close>.
\<close>

theorem stddev_of_two_samples_is_raw_sum:
  "computeMeshError witness_evaluator default_request =
     Inr (Some \<lparr> ms_mean = 1 / 2, ms_stddev = 1 / 2, ms_rmse = sqrt (1 / 2),
                 ms_inliers = 1, ms_outliers = 1 \<rparr>)
   \<and> computeReconstructionError witness_evaluator default_request =
     Inr \<lparr> r_mean = 1 / 8, r_stddev = 9 / 800, r_rmse = sqrt (17 / 800),
           r_total_points = 100, r_unknown_points = 98, r_truncated_points = 1,
           r_inliers = 1 \<rparr>"
proof
  have sub: "m_submaps witness_evaluator = Some [witness_submap]"
    by (simp add: witness_evaluator_def)
  show "computeMeshError witness_evaluator default_request =
     Inr (Some \<lparr> ms_mean = 1 / 2, ms_stddev = 1 / 2, ms_rmse = sqrt (1 / 2),
                 ms_inliers = 1, ms_outliers = 1 \<rparr>)"
    unfolding computeMeshError_def sub option.case witness_mesh_pass
    by (simp add: mesh_summary_of_def report_mean_eq report_rmse_eq report_stddev_pair)
next
  have d: "default_request\<lparr>ignore_truncated_points := False\<rparr> = default_request"
    by (simp add: default_request_def)
  have "reconstructionPass witness_evaluator default_request =
     Inr \<lparr> total_points = 100, unknown_points = 98, truncated_points = 1, inliers = 1,
           abserror = [2 / 10, 1 / 20], count = 100 \<rparr>"
    using witness_pass [of False] by (simp add: d)
  then show "computeReconstructionError witness_evaluator default_request =
     Inr \<lparr> r_mean = 1 / 8, r_stddev = 9 / 800, r_rmse = sqrt (17 / 800),
           r_total_points = 100, r_unknown_points = 98, r_truncated_points = 1,
           r_inliers = 1 \<rparr>"
    by (simp add: computeReconstructionError_def summary_of_def report_mean_eq report_rmse_eq
        report_stddev_pair power2_eq_square)
qed

section \<open>Properties of the error colouring\<close>

lemma red_channel_eq: "red_channel f = min (2 * f) 1 * 255"
  by (simp add: red_channel_def error_color_def Let_def algebra_simps)

lemma green_channel_eq: "green_channel f = (if f \<le> 1 / 2 then 190 + 130 * f else (1 - f) * 2 * 255)"
  by (simp add: green_channel_def error_color_def Let_def)

lemma green_channel_min: "green_channel f = min (190 + 130 * f) (510 * (1 - f))"
  by (simp add: green_channel_eq min_def)

lemma red_channel_continuous: "continuous_on UNIV red_channel"
proof -
  have "continuous_on UNIV (\<lambda>f::real. min (2 * f) 1 * 255)"
    by (intro continuous_intros)
  then show ?thesis by (simp add: red_channel_eq [abs_def])
qed

lemma green_channel_continuous: "continuous_on UNIV green_channel"
proof -
  have "continuous_on UNIV (\<lambda>f::real. min (190 + 130 * f) (510 * (1 - f)))"
    by (intro continuous_intros)
  then show ?thesis by (simp add: green_channel_min [abs_def])
qed

lemma red_channel_mono: "f \<le> f' \<Longrightarrow> red_channel f \<le> red_channel f'"
  by (simp add: red_channel_eq min_def)

lemma green_channel_rises: "f \<le> f' \<Longrightarrow> f' \<le> 1 / 2 \<Longrightarrow> green_channel f \<le> green_channel f'"
  by (simp add: green_channel_eq)

lemma green_channel_falls: "1 / 2 \<le> f \<Longrightarrow> f \<le> f' \<Longrightarrow> green_channel f' \<le> green_channel f"
  by (simp add: green_channel_eq)

lemma red_minus_green_strict_mono:
  "f < f' \<Longrightarrow> f' \<le> 1 \<Longrightarrow> red_channel f - green_channel f < red_channel f' - green_channel f'"
  by (simp add: red_channel_eq green_channel_eq min_def)

lemma frac_bounds:
  fixes e m :: real
  assumes "0 \<le> e" and "0 < m"
  shows "0 \<le> min e m / m \<and> min e m / m \<le> 1"
  using assms by (simp add: min_def)

lemma vertex_frac_bounds:
  assumes "0 \<le> out_dist_sqr" and "0 < maximum_distance request"
  shows "0 \<le> vertex_frac request out_dist_sqr \<and> vertex_frac request out_dist_sqr \<le> 1"
  unfolding vertex_frac_def Let_def
  by (rule frac_bounds) (use assms in simp_all)

lemma neighborStep_inv:
  assumes "neighbor_inv st" and "0 \<le> snd result"
  shows "neighbor_inv (neighborStep v interpolator result st)"
  using assms
  by (auto simp: neighbor_inv_def neighborStep_def Let_def split: option.splits)

lemma neighbor_fold_inv:
  assumes "neighbor_inv st" and "\<forall>result \<in> set results. 0 \<le> snd result"
  shows "neighbor_inv (foldl (\<lambda>st result. neighborStep v interpolator result st) st results)"
  using assms
  by (induction results arbitrary: st) (simp_all add: neighborStep_inv)

lemma voxel_frac_bounds:
  assumes "\<forall>result \<in> set results. 0 \<le> snd result" and "0 < maximum_distance request"
  shows "0 \<le> voxel_frac request v interpolator results
       \<and> voxel_frac request v interpolator results \<le> 1"
proof -
  let ?init = "\<lparr> total_error = 0, max_error = 0, counted_voxels = 0, min_dist_sqr = 1000 \<rparr>"
  let ?st = "foldl (\<lambda>st result. neighborStep v interpolator result st) ?init results"
  have "neighbor_inv ?init" by (simp add: neighbor_inv_def)
  then have inv: "neighbor_inv ?st"
    using assms(1) by (rule neighbor_fold_inv)
  then have t: "0 \<le> total_error ?st" and m: "0 \<le> max_error ?st"
    and c: "0 \<le> counted_voxels ?st" and d: "0 \<le> min_dist_sqr ?st"
    by (simp_all add: neighbor_inv_def)
  define e where "e =
    (if color_by_max_error request
     then (if counted_voxels ?st = 0 then min_dist_sqr ?st else max_error ?st)
     else (if counted_voxels ?st = 0 then total_error ?st + sqrt (min_dist_sqr ?st)
           else total_error ?st / real_of_int (counted_voxels ?st)))"
  have frac: "voxel_frac request v interpolator results =
      min e (maximum_distance request) / maximum_distance request"
    by (simp add: voxel_frac_def e_def Let_def)
  have "0 \<le> e"
    using t m c d by (simp add: e_def)
  then show ?thesis
    unfolding frac using assms(2) by (rule frac_bounds)
qed

text \<open>
  Claim C6 as stated calls the colour mapping monotonic in the fraction. The green
  channel is not: it is larger at \<open>1 / 2\<close> than at both 0 and 1.
\<close>

theorem green_channel_not_monotonic:
  "green_channel 0 < green_channel (1 / 2) \<and> green_channel 1 < green_channel (1 / 2)"
  by (simp add: green_channel_eq)

text \<open>
  Claim C6, amended. The colour is a function of the fraction alone: red is
  \<open>min ((frac - 0.5) * 2 + 1) 1 * 255\<close>, green is \<open>190 + 130 * frac\<close> up to \<open>0.5\<close> and
  \<open>(1 - frac) * 2 * 255\<close> above, blue is 0. Both channels are continuous. Red never
  decreases; green rises up to \<open>0.5\<close> and falls from there on, so that red minus green
  increases strictly on fractions up to 1. The colour of 0 is \<open>(0, 190, 0)\<close> and the
  colour of 1 is \<open>(255, 0, 0)\<close>. For a positive \<^verbatim>\<open>maximum_distance\<close> and squared
  distances that are not negative, the fraction of a mesh vertex and the fraction of a
  voxel lie between 0 and 1.
\<close>

theorem error_color_gradient:
  "error_color f =
     (min ((f - 1 / 2) * 2 + 1) 1 * 255,
      (if f \<le> 1 / 2 then 190 + 130 * f else (1 - f) * 2 * 255),
      0)
   \<and> continuous_on UNIV red_channel \<and> continuous_on UNIV green_channel
   \<and> (a \<le> b \<longrightarrow> red_channel a \<le> red_channel b)
   \<and> (c \<le> d \<and> d \<le> 1 / 2 \<longrightarrow> green_channel c \<le> green_channel d)
   \<and> (1 / 2 \<le> c' \<and> c' \<le> d' \<longrightarrow> green_channel d' \<le> green_channel c')
   \<and> (a' < b' \<and> b' \<le> 1 \<longrightarrow>
         red_channel a' - green_channel a' < red_channel b' - green_channel b')
   \<and> error_color 0 = (0, 190, 0) \<and> error_color 1 = (255, 0, 0)
   \<and> (0 \<le> out_dist_sqr \<and> 0 < maximum_distance request \<longrightarrow>
         0 \<le> vertex_frac request out_dist_sqr \<and> vertex_frac request out_dist_sqr \<le> 1)
   \<and> ((\<forall>result \<in> set results. 0 \<le> snd result) \<and> 0 < maximum_distance request \<longrightarrow>
         0 \<le> voxel_frac request voxel_size_sqr interpolator results
       \<and> voxel_frac request voxel_size_sqr interpolator results \<le> 1)"
proof (intro conjI impI)
  show "error_color f =
     (min ((f - 1 / 2) * 2 + 1) 1 * 255,
      (if f \<le> 1 / 2 then 190 + 130 * f else (1 - f) * 2 * 255),
      0)"
    by (simp add: error_color_def Let_def)
  show "continuous_on UNIV red_channel"
    by (rule red_channel_continuous)
  show "continuous_on UNIV green_channel"
    by (rule green_channel_continuous)
  show "red_channel a \<le> red_channel b" if "a \<le> b"
    using that by (rule red_channel_mono)
  show "green_channel c \<le> green_channel d" if "c \<le> d \<and> d \<le> 1 / 2"
    using that by (simp add: green_channel_rises)
  show "green_channel d' \<le> green_channel c'" if "1 / 2 \<le> c' \<and> c' \<le> d'"
    using that by (simp add: green_channel_falls)
  show "red_channel a' - green_channel a' < red_channel b' - green_channel b'"
    if "a' < b' \<and> b' \<le> 1"
    using that by (simp add: red_minus_green_strict_mono)
  show "error_color 0 = (0, 190, 0)"
    by (simp add: error_color_def Let_def)
  show "error_color 1 = (255, 0, 0)"
    by (simp add: error_color_def Let_def)
  show "0 \<le> vertex_frac request out_dist_sqr" "vertex_frac request out_dist_sqr \<le> 1"
    if "0 \<le> out_dist_sqr \<and> 0 < maximum_distance request"
    using that vertex_frac_bounds [of out_dist_sqr request] by simp_all
  show "0 \<le> voxel_frac request voxel_size_sqr interpolator results"
    "voxel_frac request voxel_size_sqr interpolator results \<le> 1"
    if "(\<forall>result \<in> set results. 0 \<le> snd result) \<and> 0 < maximum_distance request"
    using that voxel_frac_bounds [of results request voxel_size_sqr interpolator] by simp_all
qed

theorem error_color_gradient_witness:
  "(1 / 4 :: real) \<le> 3 / 4 \<and> red_channel (1 / 4) \<le> red_channel (3 / 4)
   \<and> (1 / 4 :: real) \<le> 1 / 2 \<and> green_channel (1 / 4) \<le> green_channel (1 / 2)
   \<and> (1 / 2 :: real) \<le> 3 / 4 \<and> green_channel (3 / 4) \<le> green_channel (1 / 2)
   \<and> (1 / 4 :: real) < 3 / 4 \<and> (3 / 4 :: real) \<le> 1
   \<and> red_channel (1 / 4) - green_channel (1 / 4) < red_channel (3 / 4) - green_channel (3 / 4)
   \<and> (0 :: real) \<le> 1 \<and> 0 < maximum_distance default_request
   \<and> 0 \<le> vertex_frac default_request 1 \<and> vertex_frac default_request 1 \<le> 1
   \<and> 0 \<le> snd (witness_point 0, 1 / 100 :: real)
   \<and> 0 \<le> voxel_frac default_request (1 / 10) (\<lambda>p b. Some (1 / 20)) [(witness_point 0, 1 / 100)]
   \<and> voxel_frac default_request (1 / 10) (\<lambda>p b. Some (1 / 20)) [(witness_point 0, 1 / 100)] \<le> 1"
proof -
  have m: "0 < maximum_distance default_request"
    by (simp add: default_request_def)
  have r: "\<forall>result \<in> set [(witness_point 0, 1 / 100 :: real)]. 0 \<le> snd result"
    by simp
  from error_color_gradient [where a = "1 / 4" and b = "3 / 4" and c = "1 / 4" and d = "1 / 2"
      and c' = "1 / 2" and d' = "3 / 4" and a' = "1 / 4" and b' = "3 / 4"
      and out_dist_sqr = 1 and request = default_request
      and results = "[(witness_point 0, 1 / 100)]" and voxel_size_sqr = "1 / 10"
      and interpolator = "\<lambda>p b. Some (1 / 20)"]
  show ?thesis
    using m r by simp
qed

section \<open>Properties of the coverage export\<close>

lemma forEach_invariant:
  assumes "forEach xs body st = Inr st'" and "P st"
    and "\<And>x s s'. x \<in> set xs \<Longrightarrow> P s \<Longrightarrow> body x s = Inr s' \<Longrightarrow> P s'"
  shows "P st'"
  using assms
proof (induction xs arbitrary: st)
  case Nil
  then show ?case by simp
next
  case (Cons x xs)
  from Cons.prems(1) obtain s1 where b: "body x st = Inr s1" and r: "forEach xs body s1 = Inr st'"
    by (auto split: sum.splits)
  have "P s1" using Cons.prems(3) [of x st s1] Cons.prems(2) b by simp
  with r show ?case
    by (rule Cons.IH) (use Cons.prems(3) in auto)
qed

lemma forEach_grows:
  assumes "forEach xs body st = Inr st'"
    and "\<And>x s s'. body x s = Inr s' \<Longrightarrow> set s \<subseteq> set s'"
  shows "set st \<subseteq> set st'"
  using assms
proof (induction xs arbitrary: st)
  case Nil
  then show ?case by simp
next
  case (Cons x xs)
  from Cons.prems(1) obtain s1 where b: "body x st = Inr s1" and r: "forEach xs body s1 = Inr st'"
    by (auto split: sum.splits)
  have "set st \<subseteq> set s1" using b by (rule Cons.prems(2))
  moreover have "set s1 \<subseteq> set st'" using r Cons.prems(2) by (rule Cons.IH)
  ultimately show ?case by simp
qed

lemma forEach_visits:
  assumes "forEach xs body st = Inr st'" and "x \<in> set xs"
    and "\<And>x s s'. body x s = Inr s' \<Longrightarrow> set s \<subseteq> set s'"
  shows "\<exists>s s'. body x s = Inr s' \<and> set s' \<subseteq> set st'"
  using assms
proof (induction xs arbitrary: st)
  case Nil
  then show ?case by simp
next
  case (Cons y ys)
  from Cons.prems(1) obtain s1 where b: "body y st = Inr s1" and r: "forEach ys body s1 = Inr st'"
    by (auto split: sum.splits)
  show ?case
  proof (cases "x = y")
    case True
    have "set s1 \<subseteq> set st'" using r Cons.prems(3) by (rule forEach_grows)
    with b True show ?thesis by blast
  next
    case False
    with Cons.prems(2) have "x \<in> set ys" by simp
    with r show ?thesis using Cons.prems(3) by (rule Cons.IH)
  qed
qed

lemma coverageCell_grows:
  assumes "coverageCell isObserved grid filtered cell s = Inr s'"
  shows "set s \<subseteq> set s'"
  using assms by (auto simp: coverageCell_def Let_def split: if_splits)

lemma coverageCell_observed:
  assumes "coverageCell isObserved grid filtered cell s = Inr s'"
      and "\<forall>p \<in> set s. isObserved p"
  shows "\<forall>p \<in> set s'. isObserved p"
  using assms by (auto simp: coverageCell_def Let_def split: if_splits)

lemma coverageLoop_observed:
  assumes "coverageLoop isObserved grid filtered = Inr coverage"
  shows "\<forall>p \<in> set coverage. isObserved p"
proof -
  obtain min_x min_y min_z where mn: "getMinBoxCoordinates grid = (min_x, min_y, min_z)"
    by (cases "getMinBoxCoordinates grid")
  obtain max_x max_y max_z where mx: "getMaxBoxCoordinates grid = (max_x, max_y, max_z)"
    by (cases "getMaxBoxCoordinates grid")
  let ?P = "\<lambda>s. \<forall>p \<in> set s. isObserved p"
  have ks: "?P s'"
    if "forEach ks (\<lambda>k. coverageCell isObserved grid filtered (i, j, k)) s = Inr s'" and "?P s"
    for ks i j s s'
    using that by (rule forEach_invariant) (rule coverageCell_observed)
  have js: "?P s'"
    if "forEach js (\<lambda>j. forEach [min_z..max_z]
          (\<lambda>k. coverageCell isObserved grid filtered (i, j, k))) s = Inr s'" and "?P s"
    for js i s s'
    using that by (rule forEach_invariant) (rule ks)
  have "?P []" by simp
  with assms [unfolded coverageLoop_def mn mx prod.case] show ?thesis
    by (rule forEach_invariant) (rule js)
qed

lemma coverageLoop_visits:
  assumes "coverageLoop isObserved grid filtered = Inr coverage"
      and "getMinBoxCoordinates grid = (min_x, min_y, min_z)"
      and "getMaxBoxCoordinates grid = (max_x, max_y, max_z)"
      and "min_x \<le> i" "i \<le> max_x" "min_y \<le> j" "j \<le> max_y" "min_z \<le> k" "k \<le> max_z"
  shows "\<exists>s s'. coverageCell isObserved grid filtered (i, j, k) s = Inr s'
           \<and> set s' \<subseteq> set coverage"
proof -
  let ?cell = "\<lambda>i j k. coverageCell isObserved grid filtered (i, j, k)"
  let ?row = "\<lambda>i j. forEach [min_z..max_z] (?cell i j)"
  let ?plane = "\<lambda>i. forEach [min_y..max_y] (?row i)"
  have cell: "set s \<subseteq> set s'" if "?cell a b c s = Inr s'" for a b c s s'
    using that by (rule coverageCell_grows)
  have row: "set s \<subseteq> set s'" if "?row a b s = Inr s'" for a b s s'
    using that by (rule forEach_grows) (rule cell)
  have plane: "set s \<subseteq> set s'" if "?plane a s = Inr s'" for a s s'
    using that by (rule forEach_grows) (rule row)
  have top: "forEach [min_x..max_x] ?plane [] = Inr coverage"
    using assms(1) by (simp add: coverageLoop_def assms(2,3))
  have "i \<in> set [min_x..max_x]" using assms(4,5) by simp
  with top obtain s1 s1' where p1: "?plane i s1 = Inr s1'" and c1: "set s1' \<subseteq> set coverage"
    using forEach_visits [of "[min_x..max_x]" ?plane "[]" coverage i] plane by blast
  have "j \<in> set [min_y..max_y]" using assms(6,7) by simp
  with p1 obtain s2 s2' where p2: "?row i j s2 = Inr s2'" and c2: "set s2' \<subseteq> set s1'"
    using forEach_visits [of "[min_y..max_y]" "?row i" s1 s1' j] row by blast
  have "k \<in> set [min_z..max_z]" using assms(8,9) by simp
  with p2 obtain s3 s3' where p3: "?cell i j k s3 = Inr s3'" and c3: "set s3' \<subseteq> set s2'"
    using forEach_visits [of "[min_z..max_z]" "?cell i j" s2 s2' k] cell by blast
  from c1 c2 c3 have "set s3' \<subseteq> set coverage" by blast
  with p3 show ?thesis by blast
qed

lemma coverageLoop_empty_cell:
  assumes "coverageLoop isObserved grid filtered = Inr coverage"
      and "getMinBoxCoordinates grid = (min_x, min_y, min_z)"
      and "getMaxBoxCoordinates grid = (max_x, max_y, max_z)"
      and "min_x \<le> a" "a \<le> max_x" "min_y \<le> b" "b \<le> max_y" "min_z \<le> c" "c \<le> max_z"
      and "getCentroidIndexAt grid (a, b, c) = - 1"
  shows "get_voxel_centroid (a, b, c) kCoverageGridVoxelSize \<in> set coverage
           \<longleftrightarrow> isObserved (get_voxel_centroid (a, b, c) kCoverageGridVoxelSize)"
proof
  assume "get_voxel_centroid (a, b, c) kCoverageGridVoxelSize \<in> set coverage"
  then show "isObserved (get_voxel_centroid (a, b, c) kCoverageGridVoxelSize)"
    using coverageLoop_observed [OF assms(1)] by blast
next
  assume o: "isObserved (get_voxel_centroid (a, b, c) kCoverageGridVoxelSize)"
  from coverageLoop_visits [OF assms(1-9)] obtain s s' where
    "coverageCell isObserved grid filtered (a, b, c) s = Inr s'" and sub: "set s' \<subseteq> set coverage"
    by blast
  then have "s' = s @ [get_voxel_centroid (a, b, c) kCoverageGridVoxelSize]"
    using assms(10) o by (simp add: coverageCell_def Let_def)
  with sub show "get_voxel_centroid (a, b, c) kCoverageGridVoxelSize \<in> set coverage"
    by auto
qed

lemma witness_coverageLoop:
  "coverageLoop (\<lambda>p. 0 \<le> px p) witness_grid [witness_point 0] =
     Inr [witness_point 0, \<lparr> px = 3 / 40, py = 0, pz = 0 \<rparr>]"
proof -
  have r: "[0..1] = [0, 1 :: int]" "[0..0] = [0 :: int]"
    by (simp_all add: upto.simps)
  have c: "get_voxel_centroid (1, 0, 0) kCoverageGridVoxelSize = \<lparr> px = 3 / 40, py = 0, pz = 0 \<rparr>"
    by (simp add: get_voxel_centroid_def normalized_def kCoverageGridVoxelSize_def Let_def)
  show ?thesis
    by (simp add: coverageLoop_def witness_grid_def r coverageCell_def c Let_def witness_point_def)
qed

lemma normalized_nonzero:
  assumes "0 < x * x + y * y + z * z"
  shows "normalized (x, y, z) =
           (x / sqrt (x * x + y * y + z * z), y / sqrt (x * x + y * y + z * z),
            z / sqrt (x * x + y * y + z * z))"
  using assms by (simp add: normalized_def Let_def)

lemma index_norm_positive:
  fixes i j k :: int
  assumes "(i, j, k) \<noteq> (0, 0, 0)"
  shows "0 < real_of_int i * real_of_int i + real_of_int j * real_of_int j
           + real_of_int k * real_of_int k"
proof -
  have "i \<noteq> 0 \<or> j \<noteq> 0 \<or> k \<noteq> 0" using assms by simp
  then have "0 < i * i + j * j + k * k"
    by (metis add_pos_nonneg add_nonneg_pos zero_le_square not_less_iff_gr_or_eq
        mult_eq_0_iff add_nonneg_nonneg less_le)
  then have "(0::real) < real_of_int (i * i + j * j + k * k)"
    by (simp only: of_int_0_less_iff)
  then show ?thesis
    by (simp only: of_int_add of_int_mult)
qed

lemma scaled_unit_vector_length:
  fixes a b c n h :: real
  shows "(a / n * h) ^ 2 + (b / n * h) ^ 2 + (c / n * h) ^ 2 =
           (a * a + b * b + c * c) / n ^ 2 * h ^ 2"
proof (cases "n = 0")
  case True
  then show ?thesis by simp
next
  case False
  then show ?thesis
    by (simp add: power2_eq_square field_simps)
qed

text \<open>
  For the cell \<open>(1, 0, 0)\<close> the code returns a point on the first axis, whose second
  coordinate is 0, while the point on the line from the cell corner to the cell centre
  has a positive second coordinate.
\<close>

lemma empty_cell_point_not_towards_cell_center:
  "get_voxel_centroid (1, 0, 0) kCoverageGridVoxelSize = \<lparr> px = 3 / 40, py = 0, pz = 0 \<rparr>
   \<and> 0 < py (spec_empty_cell_point (1, 0, 0) kCoverageGridVoxelSize)"
  by (simp add: get_voxel_centroid_def spec_empty_cell_point_def normalized_def
      kCoverageGridVoxelSize_def Let_def)

text \<open>
  What \<^verbatim>\<open>get_voxel_centroid\<close> computes and what the loop does with it. For a grid cell
  without ground-truth point the computed point is appended to the coverage cloud
  exactly when the map marks it as observed, by the loop body and by the finished loop.
  For a cell index \<open>(i, j, k)\<close> other than the origin the point is the cell corner
  \<open>(i * s, j * s, k * s)\<close> offset by \<open>s / 2\<close> along the unit vector of the cell index itself,
  the direction from the grid origin to the cell corner.
\<close>

lemma empty_cell_point_offset_along_index_vector:
  "(getCentroidIndexAt grid cell = - 1 \<longrightarrow>
      coverageCell isObserved grid filtered cell coverage =
        Inr (if isObserved (get_voxel_centroid cell kCoverageGridVoxelSize)
             then coverage @ [get_voxel_centroid cell kCoverageGridVoxelSize]
             else coverage))
   \<and> ((i, j, k) \<noteq> (0, 0, 0) \<longrightarrow>
        get_voxel_centroid (i, j, k) kCoverageGridVoxelSize =
          \<lparr> px = real_of_int i * kCoverageGridVoxelSize
                 + real_of_int i / sqrt (real_of_int (i * i + j * j + k * k))
                   * (kCoverageGridVoxelSize / 2),
            py = real_of_int j * kCoverageGridVoxelSize
                 + real_of_int j / sqrt (real_of_int (i * i + j * j + k * k))
                   * (kCoverageGridVoxelSize / 2),
            pz = real_of_int k * kCoverageGridVoxelSize
                 + real_of_int k / sqrt (real_of_int (i * i + j * j + k * k))
                   * (kCoverageGridVoxelSize / 2) \<rparr>
      \<and> dist_sqr (get_voxel_centroid (i, j, k) kCoverageGridVoxelSize)
           \<lparr> px = real_of_int i * kCoverageGridVoxelSize,
             py = real_of_int j * kCoverageGridVoxelSize,
             pz = real_of_int k * kCoverageGridVoxelSize \<rparr>
         = (kCoverageGridVoxelSize / 2) ^ 2)
   \<and> (coverageLoop isObserved grid filtered = Inr cloud
        \<and> getMinBoxCoordinates grid = (min_x, min_y, min_z)
        \<and> getMaxBoxCoordinates grid = (max_x, max_y, max_z)
        \<and> min_x \<le> a \<and> a \<le> max_x \<and> min_y \<le> b \<and> b \<le> max_y \<and> min_z \<le> c \<and> c \<le> max_z
        \<and> getCentroidIndexAt grid (a, b, c) = - 1 \<longrightarrow>
        (get_voxel_centroid (a, b, c) kCoverageGridVoxelSize \<in> set cloud
           \<longleftrightarrow> isObserved (get_voxel_centroid (a, b, c) kCoverageGridVoxelSize)))"
proof (intro conjI impI)
  assume "getCentroidIndexAt grid cell = - 1"
  then show "coverageCell isObserved grid filtered cell coverage =
        Inr (if isObserved (get_voxel_centroid cell kCoverageGridVoxelSize)
             then coverage @ [get_voxel_centroid cell kCoverageGridVoxelSize]
             else coverage)"
    by (simp add: coverageCell_def Let_def)
next
  assume "coverageLoop isObserved grid filtered = Inr cloud
        \<and> getMinBoxCoordinates grid = (min_x, min_y, min_z)
        \<and> getMaxBoxCoordinates grid = (max_x, max_y, max_z)
        \<and> min_x \<le> a \<and> a \<le> max_x \<and> min_y \<le> b \<and> b \<le> max_y \<and> min_z \<le> c \<and> c \<le> max_z
        \<and> getCentroidIndexAt grid (a, b, c) = - 1"
  then show "get_voxel_centroid (a, b, c) kCoverageGridVoxelSize \<in> set cloud
           \<longleftrightarrow> isObserved (get_voxel_centroid (a, b, c) kCoverageGridVoxelSize)"
    by (intro coverageLoop_empty_cell [of isObserved grid filtered cloud
          min_x min_y min_z max_x max_y max_z a b c]) simp_all
next
  assume nz: "(i, j, k) \<noteq> (0, 0, 0)"
  let ?s = kCoverageGridVoxelSize
  let ?q = "real_of_int i * real_of_int i + real_of_int j * real_of_int j
              + real_of_int k * real_of_int k"
  have pos: "0 < ?q" using nz by (rule index_norm_positive)
  have q: "real_of_int (i * i + j * j + k * k) = ?q" by simp
  have n: "normalized (real_of_int i, real_of_int j, real_of_int k) =
      (real_of_int i / sqrt ?q, real_of_int j / sqrt ?q, real_of_int k / sqrt ?q)"
    using pos by (rule normalized_nonzero)
  show c: "get_voxel_centroid (i, j, k) ?s =
          \<lparr> px = real_of_int i * ?s
                 + real_of_int i / sqrt (real_of_int (i * i + j * j + k * k)) * (?s / 2),
            py = real_of_int j * ?s
                 + real_of_int j / sqrt (real_of_int (i * i + j * j + k * k)) * (?s / 2),
            pz = real_of_int k * ?s
                 + real_of_int k / sqrt (real_of_int (i * i + j * j + k * k)) * (?s / 2) \<rparr>"
    unfolding q by (simp add: get_voxel_centroid_def n Let_def)
  have "(real_of_int i / sqrt ?q * (?s / 2)) ^ 2 + (real_of_int j / sqrt ?q * (?s / 2)) ^ 2
          + (real_of_int k / sqrt ?q * (?s / 2)) ^ 2
        = (?q / (sqrt ?q) ^ 2) * (?s / 2) ^ 2"
    by (rule scaled_unit_vector_length)
  also have "\<dots> = (?s / 2) ^ 2"
    using pos by simp
  finally have len: "(real_of_int i / sqrt ?q * (?s / 2)) ^ 2
        + (real_of_int j / sqrt ?q * (?s / 2)) ^ 2
        + (real_of_int k / sqrt ?q * (?s / 2)) ^ 2 = (?s / 2) ^ 2" .
  show "dist_sqr (get_voxel_centroid (i, j, k) ?s)
           \<lparr> px = real_of_int i * ?s, py = real_of_int j * ?s, pz = real_of_int k * ?s \<rparr>
         = (?s / 2) ^ 2"
    unfolding c q dist_sqr_def using len by simp
qed

lemma empty_cell_point_offset_along_index_vector_instance:
  "getCentroidIndexAt witness_grid (1, 0, 0) = - 1
   \<and> coverageCell (\<lambda>p. 0 \<le> px p) witness_grid [witness_point 0] (1, 0, 0) [] =
       Inr [\<lparr> px = 3 / 40, py = 0, pz = 0 \<rparr>]
   \<and> (1, 0, 0) \<noteq> (0 :: int, 0 :: int, 0 :: int)
   \<and> get_voxel_centroid (1, 0, 0) kCoverageGridVoxelSize = \<lparr> px = 3 / 40, py = 0, pz = 0 \<rparr>
   \<and> dist_sqr (get_voxel_centroid (1, 0, 0) kCoverageGridVoxelSize)
        \<lparr> px = 1 / 20, py = 0, pz = 0 \<rparr> = 1 / 1600
   \<and> coverageLoop (\<lambda>p. 0 \<le> px p) witness_grid [witness_point 0] =
       Inr [witness_point 0, \<lparr> px = 3 / 40, py = 0, pz = 0 \<rparr>]
   \<and> getMinBoxCoordinates witness_grid = (0, 0, 0)
   \<and> getMaxBoxCoordinates witness_grid = (1, 0, 0)
   \<and> get_voxel_centroid (1, 0, 0) kCoverageGridVoxelSize
       \<in> set [witness_point 0, \<lparr> px = 3 / 40, py = 0, pz = 0 \<rparr>]"
proof -
  have e: "getCentroidIndexAt witness_grid (1, 0, 0) = - 1"
    by (simp add: witness_grid_def)
  have nz: "(1, 0, 0) \<noteq> (0 :: int, 0 :: int, 0 :: int)" by simp
  have box: "getMinBoxCoordinates witness_grid = (0, 0, 0)"
    "getMaxBoxCoordinates witness_grid = (1, 0, 0)"
    by (simp_all add: witness_grid_def)
  from empty_cell_point_offset_along_index_vector [where grid = witness_grid
      and cell = "(1, 0, 0)" and isObserved = "\<lambda>p. 0 \<le> px p" and filtered = "[witness_point 0]"
      and coverage = "[]" and i = 1 and j = 0 and k = 0
      and cloud = "[witness_point 0, \<lparr> px = 3 / 40, py = 0, pz = 0 \<rparr>]"
      and min_x = 0 and min_y = 0 and min_z = 0 and max_x = 1 and max_y = 0 and max_z = 0
      and a = 1 and b = 0 and c = 0]
  show ?thesis
    using e nz box witness_coverageLoop
    by (simp add: kCoverageGridVoxelSize_def dist_sqr_def power2_eq_square)
qed

lemma gap_coverageLoop:
  "coverageLoop (\<lambda>p. True) gap_grid gap_cloud =
     Inr [\<lparr> px = - 8 / 100, py = 1 / 100, pz = 1 / 100 \<rparr>,
          \<lparr> px = - 3 / 40, py = 0, pz = 0 \<rparr>,
          \<lparr> px = 1 / 100, py = 1 / 100, pz = 1 / 100 \<rparr>]"
proof -
  have r: "[- 2..0] = [- 2, - 1, 0 :: int]" "[0..0] = [0 :: int]"
    by (simp_all add: upto.simps)
  have c: "get_voxel_centroid (- 1, 0, 0) kCoverageGridVoxelSize
      = \<lparr> px = - 3 / 40, py = 0, pz = 0 \<rparr>"
    by (simp add: get_voxel_centroid_def normalized_def kCoverageGridVoxelSize_def Let_def)
  show ?thesis
    by (simp add: coverageLoop_def gap_grid_def r coverageCell_def c Let_def gap_cloud_def)
qed

text \<open>
  Claim C5 says that the point of an empty cell is the cell corner offset by half a cell
  size towards the centre of the cell. The code, whose function and variable are named
  after the voxel centroid, normalises the integer cell index instead. For the ground
  truth of two points with the empty cell \<open>(- 1, 0, 0)\<close> between them and a map that
  observes everything, the coverage export writes the point \<open>(- 3 / 40, 0, 0)\<close> for that
  cell: its first coordinate is below the cell corner \<open>- 1 / 20\<close>, so the point lies in
  the neighbouring cell \<open>(- 2, 0, 0)\<close>, while the point of the claim lies inside the
  cell.
\<close>

theorem empty_cell_point_lies_outside_its_cell:
  "exportCoveragePointcloud loading_environment service_evaluator =
     Inr (service_evaluator\<lparr>m_gt_voxel_grid_ptr := Some gap_grid,
                             m_filtered_gt_cloud_ptr := Some gap_cloud\<rparr>,
          [\<lparr> px = - 8 / 100, py = 1 / 100, pz = 1 / 100 \<rparr>,
           \<lparr> px = - 3 / 40, py = 0, pz = 0 \<rparr>,
           \<lparr> px = 1 / 100, py = 1 / 100, pz = 1 / 100 \<rparr>])
   \<and> getCentroidIndexAt gap_grid (- 1, 0, 0) = - 1
   \<and> get_voxel_centroid (- 1, 0, 0) kCoverageGridVoxelSize = \<lparr> px = - 3 / 40, py = 0, pz = 0 \<rparr>
   \<and> - 3 / 40 < - 1 * kCoverageGridVoxelSize
   \<and> - 1 * kCoverageGridVoxelSize < px (spec_empty_cell_point (- 1, 0, 0) kCoverageGridVoxelSize)
   \<and> px (spec_empty_cell_point (- 1, 0, 0) kCoverageGridVoxelSize) < 0
   \<and> 0 < py (spec_empty_cell_point (- 1, 0, 0) kCoverageGridVoxelSize)"
proof (intro conjI)
  have g: "m_gt_cloud_ptr service_evaluator = Some gap_cloud"
    "m_gt_voxel_grid_ptr service_evaluator = None"
    "m_submaps service_evaluator = Some [labeled_submap]"
    by (simp_all add: service_evaluator_def witness_evaluator_def)
  have e: "VoxelGrid_filter loading_environment gap_cloud kCoverageGridVoxelSize
      = (gap_grid, gap_cloud)"
    "PlanningInterface_isObserved loading_environment [labeled_submap] = (\<lambda>p. True)"
    by (simp_all add: loading_environment_def)
  show "exportCoveragePointcloud loading_environment service_evaluator =
     Inr (service_evaluator\<lparr>m_gt_voxel_grid_ptr := Some gap_grid,
                             m_filtered_gt_cloud_ptr := Some gap_cloud\<rparr>,
          [\<lparr> px = - 8 / 100, py = 1 / 100, pz = 1 / 100 \<rparr>,
           \<lparr> px = - 3 / 40, py = 0, pz = 0 \<rparr>,
           \<lparr> px = 1 / 100, py = 1 / 100, pz = 1 / 100 \<rparr>])"
    by (simp add: exportCoveragePointcloud_def g e gap_coverageLoop)
  show "getCentroidIndexAt gap_grid (- 1, 0, 0) = - 1"
    by (simp add: gap_grid_def)
  show "get_voxel_centroid (- 1, 0, 0) kCoverageGridVoxelSize = \<lparr> px = - 3 / 40, py = 0, pz = 0 \<rparr>"
    by (simp add: get_voxel_centroid_def normalized_def kCoverageGridVoxelSize_def Let_def)
  show "- 3 / 40 < - 1 * kCoverageGridVoxelSize"
    by (simp add: kCoverageGridVoxelSize_def)
  have s3: "1 < sqrt 3" by (simp add: real_less_rsqrt)
  have u: "spec_empty_cell_point (- 1, 0, 0) kCoverageGridVoxelSize =
      \<lparr> px = - (1 / 20) + 1 / 40 * (1 / 40 / sqrt (3 / 1600)),
        py = 1 / 40 * (1 / 40 / sqrt (3 / 1600)),
        pz = 1 / 40 * (1 / 40 / sqrt (3 / 1600)) \<rparr>"
    by (simp add: spec_empty_cell_point_def normalized_def kCoverageGridVoxelSize_def Let_def)
  have q: "sqrt (3 / 1600) = sqrt 3 / 40"
    by (simp add: real_sqrt_divide)
  have w: "1 / 40 / (sqrt 3 / 40) = 1 / sqrt 3" by simp
  define t where "t = 1 / sqrt 3"
  have b: "0 < t" "t < 1"
    using s3 by (simp_all add: t_def)
  have u': "spec_empty_cell_point (- 1, 0, 0) kCoverageGridVoxelSize =
      \<lparr> px = - (1 / 20) + 1 / 40 * t, py = 1 / 40 * t, pz = 1 / 40 * t \<rparr>"
    unfolding u q w t_def ..
  show "- 1 * kCoverageGridVoxelSize < px (spec_empty_cell_point (- 1, 0, 0) kCoverageGridVoxelSize)"
    unfolding u' using b by (simp add: kCoverageGridVoxelSize_def)
  show "px (spec_empty_cell_point (- 1, 0, 0) kCoverageGridVoxelSize) < 0"
    unfolding u' using b by simp
  show "0 < py (spec_empty_cell_point (- 1, 0, 0) kCoverageGridVoxelSize)"
    unfolding u' using b by simp
qed

section \<open>Properties of the labeled point cloud export\<close>

lemma exportVertex_bounded:
  assumes "exportVertex submap mesh i cloud = Inr cloud'" and "labels_bounded cloud"
  shows "labels_bounded cloud'"
  using assms
  by (auto simp: exportVertex_def labels_bounded_def Let_def not_less
      split: if_splits option.splits)

lemma collectLabeledPoints_bounded:
  assumes "collectLabeledPoints submaps = Inr cloud"
  shows "labels_bounded cloud"
proof -
  have vertices: "labels_bounded s'"
    if "forEach is (exportVertex submap mesh) s = Inr s'" and "labels_bounded s"
    for "is" submap mesh s s'
    using that by (rule forEach_invariant) (rule exportVertex_bounded)
  have blocks: "labels_bounded s'"
    if "forEach meshes (\<lambda>mesh. forEach [0..<length (vertices mesh)] (exportVertex submap mesh)) s
          = Inr s'"
      and "labels_bounded s"
    for meshes submap s s'
    using that by (rule forEach_invariant) (rule vertices)
  have "labels_bounded []" by (simp add: labels_bounded_def)
  with assms [unfolded collectLabeledPoints_def] show ?thesis
    by (rule forEach_invariant) (auto split: if_splits intro: blocks)
qed

lemma remapLoop_eq:
  "remapLoop label_map i cloud = take i cloud @ map (remapPoint label_map) (drop i cloud)"
proof (induction label_map i cloud rule: remapLoop.induct)
  case (1 label_map i cloud)
  show ?case
  proof (cases "i < length cloud")
    case True
    let ?c = "cloud[i := remapPoint label_map (cloud ! i)]"
    have "remapLoop label_map i cloud = remapLoop label_map (i + 1) ?c"
      using True by (subst remapLoop.simps) simp
    also have "\<dots> = take (i + 1) ?c @ map (remapPoint label_map) (drop (i + 1) ?c)"
      using True by (rule "1.IH")
    also have "take (i + 1) ?c = take i cloud @ [remapPoint label_map (cloud ! i)]"
      using True by (simp add: take_Suc_conv_app_nth)
    also have "drop (i + 1) ?c = drop (i + 1) cloud"
      by simp
    finally show ?thesis
      using True by (simp add: Cons_nth_drop_Suc [symmetric])
  next
    case False
    then show ?thesis
      by (subst remapLoop.simps) simp
  qed
qed

lemma remapLoop_map: "remapLoop label_map 0 cloud = map (remapPoint label_map) cloud"
  by (simp add: remapLoop_eq)

lemma unmapped_label_exact:
  fixes l :: "32 word"
  assumes "l \<le> 50000"
  shows "unat (l * 1000) = unat l * 1000"
proof -
  have "unat l \<le> 50000" using assms by (simp add: word_le_nat_alt)
  then have "unat l * 1000 < 2 ^ 32" by simp
  then show ?thesis
    by (simp add: unat_word_ariths)
qed

lemma mapped_label_exact:
  fixes l cls :: "32 word"
  assumes "0 \<le> sint cls" and "sint cls * 1000 + uint l < 2 ^ 31"
  shows "uint (cls * 1000 + l) = sint cls * 1000 + uint l"
proof -
  have lt: "sint cls < 2 ^ 31"
    using sint_lt [of cls] by simp
  have u: "uint cls = sint cls"
    unfolding uint_sint using assms(1) lt by (simp add: take_bit_int_eq_self)
  have "uint (cls * 1000 + l) = (uint cls * 1000 + uint l) mod 2 ^ 32"
    by (simp add: uint_word_ariths mod_simps)
  also have "\<dots> = uint cls * 1000 + uint l"
    using assms u by simp
  finally show ?thesis
    by (simp add: u)
qed

lemma witness_collect:
  "collectLabeledPoints [labeled_submap] =
     Inr [\<lparr> lx = 0, ly = 0, lz = 0, rgb = (0, 0, 0), label = 7 \<rparr>,
          \<lparr> lx = 1, ly = 0, lz = 0, rgb = (9, 9, 9), label = 9 \<rparr>]"
  by (simp add: collectLabeledPoints_def labeled_submap_def exportVertex_def vertexLabel_def
      witness_point_def Let_def upt_rec)

text \<open>
  Claim C8. When the labeled point cloud is remapped through the instance to class table
  (the stored request is for a single TSDF and the label map file exists), the export
  succeeds with a cloud of the same length in which a point whose label is a key of the
  table carries \<open>classID * 1000 + instanceID\<close>, and a point whose label is not carries
  \<open>label * 1000\<close>. The labels are 32-bit: the second value is exact as a number because
  exported labels are at most 50000, the first whenever the class id is not negative and
  the sum does not overflow the \<^verbatim>\<open>int\<close>.
\<close>

theorem remapped_labels:
  assumes "m_submaps ev = Some submaps"
      and "collectLabeledPoints submaps = Inr cloud"
      and "is_single_tsdf (m_request ev)"
      and "is_regular_file env (label_map_file_path ev)"
      and "i < length cloud"
  shows "\<exists>remapped.
           exportLabeledPointcloud env ev = Inr remapped
         \<and> length remapped = length cloud
         \<and> (case read_label_map (CSVReader_rows env (label_map_file_path ev)) Map.empty
                   (label (cloud ! i)) of
              Some cls \<Rightarrow>
                label (remapped ! i) = cls * 1000 + label (cloud ! i)
              \<and> (0 \<le> sint cls \<and> sint cls * 1000 + uint (label (cloud ! i)) < 2 ^ 31 \<longrightarrow>
                   uint (label (remapped ! i)) = sint cls * 1000 + uint (label (cloud ! i)))
            | None \<Rightarrow>
                label (remapped ! i) = label (cloud ! i) * 1000
              \<and> unat (label (remapped ! i)) = unat (label (cloud ! i)) * 1000)"
proof -
  let ?m = "read_label_map (CSVReader_rows env (label_map_file_path ev)) Map.empty"
  let ?r = "map (remapPoint ?m) cloud"
  have e: "exportLabeledPointcloud env ev = Inr ?r"
    using assms(1-4) by (simp add: exportLabeledPointcloud_def remapLoop_map)
  have "labels_bounded cloud"
    using assms(2) by (rule collectLabeledPoints_bounded)
  then have b: "label (cloud ! i) \<le> 50000"
    using assms(5) by (simp add: labels_bounded_def)
  have n: "?r ! i = remapPoint ?m (cloud ! i)"
    using assms(5) by simp
  have "case ?m (label (cloud ! i)) of
      Some cls \<Rightarrow>
        label (?r ! i) = cls * 1000 + label (cloud ! i)
      \<and> (0 \<le> sint cls \<and> sint cls * 1000 + uint (label (cloud ! i)) < 2 ^ 31 \<longrightarrow>
           uint (label (?r ! i)) = sint cls * 1000 + uint (label (cloud ! i)))
    | None \<Rightarrow>
        label (?r ! i) = label (cloud ! i) * 1000
      \<and> unat (label (?r ! i)) = unat (label (cloud ! i)) * 1000"
    unfolding n
    using b by (simp add: remapPoint_def mapped_label_exact unmapped_label_exact split: option.splits)
  with e show ?thesis
    by (intro exI [of _ ?r]) simp
qed

theorem remapped_labels_witness:
  "m_submaps single_tsdf_evaluator = Some [labeled_submap]
   \<and> collectLabeledPoints [labeled_submap] =
       Inr [\<lparr> lx = 0, ly = 0, lz = 0, rgb = (0, 0, 0), label = 7 \<rparr>,
            \<lparr> lx = 1, ly = 0, lz = 0, rgb = (9, 9, 9), label = 9 \<rparr>]
   \<and> is_single_tsdf (m_request single_tsdf_evaluator)
   \<and> is_regular_file witness_environment (label_map_file_path single_tsdf_evaluator)
   \<and> read_label_map
         (CSVReader_rows witness_environment (label_map_file_path single_tsdf_evaluator))
         Map.empty = [7 \<mapsto> 3]
   \<and> (\<exists>remapped.
         exportLabeledPointcloud witness_environment single_tsdf_evaluator = Inr remapped
       \<and> length remapped = 2
       \<and> label (remapped ! 0) = 3007 \<and> uint (label (remapped ! 0)) = 3 * 1000 + 7
       \<and> label (remapped ! 1) = 9000 \<and> unat (label (remapped ! 1)) = 9 * 1000)"
proof -
  let ?cloud = "[\<lparr> lx = 0, ly = 0, lz = 0, rgb = (0, 0, 0), label = 7 \<rparr>,
                 \<lparr> lx = 1, ly = 0, lz = 0, rgb = (9, 9, 9), label = 9 \<rparr>]"
  have s: "m_submaps single_tsdf_evaluator = Some [labeled_submap]"
    by (simp add: single_tsdf_evaluator_def)
  have t: "is_single_tsdf (m_request single_tsdf_evaluator)"
    by (simp add: single_tsdf_evaluator_def)
  have f: "is_regular_file witness_environment (label_map_file_path single_tsdf_evaluator)"
    by (simp add: witness_environment_def)
  have m: "read_label_map
         (CSVReader_rows witness_environment (label_map_file_path single_tsdf_evaluator))
         Map.empty = [7 \<mapsto> 3]"
    by (simp add: witness_environment_def)
  have i0: "0 < length ?cloud" and i1: "1 < length ?cloud"
    by simp_all
  from remapped_labels [OF s witness_collect t f i0] obtain r0 where
    r0: "exportLabeledPointcloud witness_environment single_tsdf_evaluator = Inr r0"
      "length r0 = 2" "label (r0 ! 0) = 3007" "uint (label (r0 ! 0)) = 3 * 1000 + 7"
    unfolding m by auto
  from remapped_labels [OF s witness_collect t f i1] obtain r1 where
    r1: "exportLabeledPointcloud witness_environment single_tsdf_evaluator = Inr r1"
      "label (r1 ! 1) = 9000" "unat (label (r1 ! 1)) = 9 * 1000"
    unfolding m by auto
  from r0(1) r1(1) have "r1 = r0" by simp
  with r0 r1 s t f m witness_collect show ?thesis
    by auto
qed

section \<open>Properties of the loading of the inputs\<close>

lemma exportCoveragePointcloud_fatal:
  assumes "m_gt_cloud_ptr ev = None"
      and "fst (loadPLYFile env (ground_truth_pointcloud_file (m_request ev))) = - 1"
  shows "exportCoveragePointcloud env ev = Inl FatalLog"
proof -
  obtain code cloud where
    l: "loadPLYFile env (ground_truth_pointcloud_file (m_request ev)) = (code, cloud)"
    by (cases "loadPLYFile env (ground_truth_pointcloud_file (m_request ev))")
  with assms(2) have "code = - 1" by simp
  with assms(1) l show ?thesis
    by (simp add: exportCoveragePointcloud_def)
qed

lemma evaluate_load_ground_truth_failure:
  assumes "isValid request" and "evaluate request \<or> compute_coloring request"
      and "ground_truth_pointcloud_file request \<noteq> []"
      and "fst (loadPLYFile env (ground_truth_pointcloud_file request)) \<noteq> 0"
  shows "evaluate_load env ev request = Inr (Some False, ev\<lparr>m_gt_cloud_ptr := None\<rparr>)"
proof -
  obtain code cloud where
    l: "loadPLYFile env (ground_truth_pointcloud_file request) = (code, cloud)"
    by (cases "loadPLYFile env (ground_truth_pointcloud_file request)")
  with assms(4) have "code \<noteq> 0" by simp
  with assms(1-3) l show ?thesis
    by (simp add: evaluate_load_def Let_def)
qed

lemma evaluate_load_panmap_failure:
  assumes "isValid request" and "\<not> evaluate request" and "\<not> compute_coloring request"
      and "map_file request \<noteq> []"
      and "map_name_of (map_file request) = Inr (''.panmap'', name)"
      and "loadFromFile env (map_file request) = None"
  shows "\<exists>ev'. evaluate_load env ev request = Inr (Some False, ev')"
  using assms by (simp add: evaluate_load_def Let_def)

lemma evaluate_load_vxblx_failure_goes_on:
  assumes "isValid request" and "\<not> evaluate request" and "\<not> compute_coloring request"
      and "map_file request \<noteq> []"
      and "map_name_of (map_file request) = Inr (''.vxblx'', name)"
      and "LoadLayer env (map_file request) = None"
  shows "\<exists>ev'. evaluate_load env ev request = Inr (None, ev') \<and> m_use_voxblox ev'
           \<and> interp_getDistance ev' = interp_getDistance ev"
  using assms by (simp add: evaluate_load_def Let_def)

lemma map_name_of_panmap:
  "map_name_of ''maps/run1.panmap'' = Inr (''.panmap'', ''run1'')"
  by (simp add: map_name_of_def find_last_of_def substr_def npos_def Let_def)

lemma map_name_of_vxblx:
  "map_name_of ''maps/run1.vxblx'' = Inr (''.vxblx'', ''run1'')"
  by (simp add: map_name_of_def find_last_of_def substr_def npos_def Let_def)

lemma directory_of_witness:
  "take (find_last_of ''maps/run1.panmap'' CHR ''/'') ''maps/run1.panmap'' = ''maps''"
  "take (find_last_of ''maps/run1.vxblx'' CHR ''/'') ''maps/run1.vxblx'' = ''maps''"
  by (simp_all add: find_last_of_def)

lemma evaluate_load_witness:
  "evaluate_load loading_environment fresh_evaluator evaluate_request = Inr (None, loaded_evaluator)"
proof -
  have v: "isValid evaluate_request" "evaluate evaluate_request"
    "ground_truth_pointcloud_file evaluate_request \<noteq> []"
    "map_file evaluate_request = ''maps/run1.panmap''"
    by (simp_all add: isValid_def evaluate_request_def default_request_def)
  have e: "loadPLYFile loading_environment (ground_truth_pointcloud_file evaluate_request)
      = (0, witness_cloud)"
    "loadFromFile loading_environment ''maps/run1.panmap'' = Some [labeled_submap]"
    "PlanningInterface_getDistance loading_environment [labeled_submap]
      = (\<lambda>p a b. if px p < 0 then None else Some (px p))"
    by (simp_all add: loading_environment_def)
  show ?thesis
    by (simp add: evaluate_load_def v e map_name_of_panmap directory_of_witness Let_def
        loaded_evaluator_def fresh_evaluator_def)
qed

text \<open>
  Claim C4 says that an observed point counts as an inlier exactly when its raw absolute
  distance is at most \<^verbatim>\<open>inlier_distance\<close>. \<^verbatim>\<open>evaluate\<close> passes its request to the pass,
  which reads \<^verbatim>\<open>maximum_distance\<close> from that request but the inlier distance from the
  member \<^verbatim>\<open>request_\<close>, which \<^verbatim>\<open>evaluate\<close> never sets. For a request with inlier
  distance 1 on a fresh evaluator the inputs load, the point at distance \<open>1 / 2\<close> is
  truncated and within the requested inlier distance, and two points of the cloud are;
  the pass reports one inlier.
\<close>

theorem inlier_test_ignores_requested_inlier_distance:
  "evaluate_load loading_environment fresh_evaluator evaluate_request = Inr (None, loaded_evaluator)
   \<and> reconstructionPass loaded_evaluator evaluate_request =
       Inr \<lparr> total_points = 100, unknown_points = 98, truncated_points = 1, inliers = 1,
             abserror = [2 / 10, 1 / 20], count = 100 \<rparr>
   \<and> computeReconstructionError loaded_evaluator evaluate_request =
       Inr \<lparr> r_mean = 1 / 8, r_stddev = 9 / 800, r_rmse = sqrt (17 / 800),
             r_total_points = 100, r_unknown_points = 98, r_truncated_points = 1,
             r_inliers = 1 \<rparr>
   \<and> inlier_distance evaluate_request = 1
   \<and> lookupDistance loaded_evaluator evaluate_request (witness_point (1 / 2)) = Some (1 / 2)
   \<and> spec_is_inlier loaded_evaluator evaluate_request (witness_point (1 / 2))
   \<and> length (filter (spec_is_inlier loaded_evaluator evaluate_request) witness_cloud) = 2"
proof (intro conjI)
  show "evaluate_load loading_environment fresh_evaluator evaluate_request
      = Inr (None, loaded_evaluator)"
    by (rule evaluate_load_witness)
  have look: "lookupDistance loaded_evaluator evaluate_request (witness_point v)
      = (if v < 0 then None else Some v)" for v
    by (simp add: lookupDistance_def loaded_evaluator_def fresh_evaluator_def evaluate_request_def
        default_request_def witness_point_def)
  have "reconstructionPass loaded_evaluator evaluate_request =
     Inr \<lparr> total_points = 100, unknown_points = 98, truncated_points = 1, inliers = 1,
           abserror = (if ignore_truncated_points evaluate_request then [1 / 20]
                       else [2 / 10, 1 / 20]),
           count = 100 \<rparr>"
  proof (rule witness_cloud_pass)
    show "m_gt_cloud_ptr loaded_evaluator = Some witness_cloud"
      by (simp add: loaded_evaluator_def)
    show "lookupDistance loaded_evaluator evaluate_request (witness_point v)
        = (if v < 0 then None else Some v)" for v
      by (rule look)
    show "maximum_distance evaluate_request = 2 / 10"
      by (simp add: evaluate_request_def default_request_def)
    show "inlier_distance (m_request loaded_evaluator) = 1 / 10"
      by (simp add: loaded_evaluator_def fresh_evaluator_def default_request_def)
  qed
  then show p: "reconstructionPass loaded_evaluator evaluate_request =
       Inr \<lparr> total_points = 100, unknown_points = 98, truncated_points = 1, inliers = 1,
             abserror = [2 / 10, 1 / 20], count = 100 \<rparr>"
    by (simp add: evaluate_request_def default_request_def)
  show "computeReconstructionError loaded_evaluator evaluate_request =
       Inr \<lparr> r_mean = 1 / 8, r_stddev = 9 / 800, r_rmse = sqrt (17 / 800),
             r_total_points = 100, r_unknown_points = 98, r_truncated_points = 1,
             r_inliers = 1 \<rparr>"
    unfolding computeReconstructionError_def p
    by (simp add: summary_of_def report_mean_eq report_rmse_eq report_stddev_pair
        power2_eq_square)
  show "inlier_distance evaluate_request = 1"
    by (simp add: evaluate_request_def)
  show "lookupDistance loaded_evaluator evaluate_request (witness_point (1 / 2)) = Some (1 / 2)"
    by (simp add: look)
  have il: "inlier_distance evaluate_request = 1"
    by (simp add: evaluate_request_def)
  show "spec_is_inlier loaded_evaluator evaluate_request (witness_point (1 / 2))"
    by (simp add: spec_is_inlier_def look il)
  show "length (filter (spec_is_inlier loaded_evaluator evaluate_request) witness_cloud) = 2"
    by (simp add: witness_cloud_def spec_is_inlier_def look il)
qed

text \<open>
  Claim C7 says that a failure to load the map file aborts the run and returns failure.
  For a map file with the extension \<^verbatim>\<open>.vxblx\<close> the result of \<^verbatim>\<open>LoadLayer\<close> is not
  tested: when no layer can be loaded, the first part of \<^verbatim>\<open>evaluate\<close> does not return
  false but goes on, with \<^verbatim>\<open>use_voxblox_\<close> set and no layer held.
\<close>

theorem failed_voxblox_load_is_not_reported:
  "LoadLayer loading_environment (map_file vxblx_request) = None
   \<and> evaluate_load loading_environment fresh_evaluator vxblx_request =
       Inr (None,
            fresh_evaluator\<lparr>m_gt_cloud_ptr := Some witness_cloud,
                            m_target_directory := ''maps'', m_target_map_name := ''run1'',
                            m_use_voxblox := True\<rparr>)"
proof
  show "LoadLayer loading_environment (map_file vxblx_request) = None"
    by (simp add: loading_environment_def)
  have v: "isValid vxblx_request" "evaluate vxblx_request"
    "ground_truth_pointcloud_file vxblx_request \<noteq> []"
    "map_file vxblx_request = ''maps/run1.vxblx''"
    by (simp_all add: isValid_def vxblx_request_def default_request_def)
  have e: "loadPLYFile loading_environment (ground_truth_pointcloud_file vxblx_request)
      = (0, witness_cloud)"
    "LoadLayer loading_environment ''maps/run1.vxblx'' = None"
    by (simp_all add: loading_environment_def)
  show "evaluate_load loading_environment fresh_evaluator vxblx_request =
       Inr (None,
            fresh_evaluator\<lparr>m_gt_cloud_ptr := Some witness_cloud,
                            m_target_directory := ''maps'', m_target_map_name := ''run1'',
                            m_use_voxblox := True\<rparr>)"
    by (simp add: evaluate_load_def v e map_name_of_vxblx directory_of_witness Let_def
        fresh_evaluator_def)
qed

end
